theory Spec2Isabelle
  imports Complex_Main "HOL-Library.Char_ord" "HOL-Library.List_Lexorder" "HOL-Library.Sublist"
begin

section \<open>Python values, exceptions and strings\<close>

text \<open>
  The embedding follows \<^verbatim>\<open>audio_lyrics_fetcher.py\<close>. A Python \<^verbatim>\<open>str\<close> is a
  \<^typ>\<open>string\<close> whose characters are the code points below 256; the character tables of
  \<^verbatim>\<open>str.strip\<close>, \<^verbatim>\<open>str.lower\<close> and of the regular expression classes
  \<^verbatim>\<open>\w\<close> and \<^verbatim>\<open>\s\<close> are written out for that range. Output printed
  to the terminal is not part of the model.
\<close>

datatype exn =
  ConnectionError | Timeout | JSONDecodeError | ParseError | TypeError | IndexError
  | KeyError | AttributeError | ValueError | OSError | MutagenError | UnicodeEncodeError

text \<open>
  The objects \<^verbatim>\<open>response.json()\<close> can return. A number is kept as an integer:
  the program only tests whether it is zero.
\<close>

datatype pyval =
  PNone | PBool bool | PInt int | PStr string | PList "pyval list"
  | PDict "(string \<times> pyval) list"

definition bnd :: "exn + 'a \<Rightarrow> ('a \<Rightarrow> exn + 'b) \<Rightarrow> exn + 'b" where
  "bnd m f = (case m of Inl e \<Rightarrow> Inl e | Inr v \<Rightarrow> f v)"

fun truthy :: "pyval \<Rightarrow> bool" where
  "truthy PNone = False"
| "truthy (PBool b) = b"
| "truthy (PInt i) = (i \<noteq> 0)"
| "truthy (PStr s) = (s \<noteq> [])"
| "truthy (PList xs) = (xs \<noteq> [])"
| "truthy (PDict kvs) = (kvs \<noteq> [])"

text \<open>\<^verbatim>\<open>len(v)\<close>: a \<^verbatim>\<open>TypeError\<close> for None, bool and int.\<close>

fun py_len :: "pyval \<Rightarrow> exn + nat" where
  "py_len (PStr s) = Inr (length s)"
| "py_len (PList xs) = Inr (length xs)"
| "py_len (PDict kvs) = Inr (length kvs)"
| "py_len v = Inl TypeError"

text \<open>\<^verbatim>\<open>v[0]\<close>: the keys of a decoded JSON object are strings, so 0 is never one.\<close>

fun py_item0 :: "pyval \<Rightarrow> exn + pyval" where
  "py_item0 (PList []) = Inl IndexError"
| "py_item0 (PList (x # xs)) = Inr x"
| "py_item0 (PStr []) = Inl IndexError"
| "py_item0 (PStr (c # cs)) = Inr (PStr [c])"
| "py_item0 (PDict kvs) = Inl KeyError"
| "py_item0 v = Inl TypeError"

text \<open>\<^verbatim>\<open>v.get(key, default)\<close>: only a dict has the method.\<close>

fun py_get :: "pyval \<Rightarrow> string \<Rightarrow> pyval \<Rightarrow> exn + pyval" where
  "py_get (PDict kvs) k d = Inr (case map_of kvs k of None \<Rightarrow> d | Some v \<Rightarrow> v)"
| "py_get v k d = Inl AttributeError"

definition py_isspace :: "char \<Rightarrow> bool" where
  "py_isspace c =
     (let n = (of_char c :: nat)
      in (9 \<le> n \<and> n \<le> 13) \<or> (28 \<le> n \<and> n \<le> 32) \<or> n = 133 \<or> n = 160)"

definition py_isword :: "char \<Rightarrow> bool" where
  "py_isword c =
     (let n = (of_char c :: nat)
      in (48 \<le> n \<and> n \<le> 57) \<or> (65 \<le> n \<and> n \<le> 90) \<or> n = 95 \<or> (97 \<le> n \<and> n \<le> 122)
         \<or> n = 170 \<or> n = 178 \<or> n = 179 \<or> n = 181 \<or> n = 185 \<or> n = 186
         \<or> (188 \<le> n \<and> n \<le> 190) \<or> (192 \<le> n \<and> n \<le> 214) \<or> (216 \<le> n \<and> n \<le> 246)
         \<or> 248 \<le> n)"

definition py_lower :: "char \<Rightarrow> char" where
  "py_lower c =
     (let n = (of_char c :: nat)
      in if (65 \<le> n \<and> n \<le> 90) \<or> (192 \<le> n \<and> n \<le> 222 \<and> n \<noteq> 215)
         then char_of (n + 32) else c)"

text \<open>\<^verbatim>\<open>s.strip()\<close> on a str.\<close>

definition strip :: "string \<Rightarrow> string" where
  "strip s = rev (dropWhile py_isspace (rev (dropWhile py_isspace s)))"

text \<open>\<^verbatim>\<open>v.strip()\<close> on any value: only a str has the method.\<close>

fun py_strip :: "pyval \<Rightarrow> exn + string" where
  "py_strip (PStr s) = Inr (strip s)"
| "py_strip v = Inl AttributeError"

text \<open>\<^verbatim>\<open>re.sub(r'[^\w\s-]', '', s).strip()\<close>.\<close>

definition clean :: "string \<Rightarrow> string" where
  "clean s = strip (filter (\<lambda>c. py_isword c \<or> py_isspace c \<or> c = CHR ''-'') s)"

section \<open>The HTTP session\<close>

record request =
  url :: string
  params :: "(string \<times> string) list"
  timeout :: nat

text \<open>
  A response carries its status code and what the two decoders used by the sources make
  of its body: \<open>json\<close> is the result of \<^verbatim>\<open>response.json()\<close>, and \<open>xml_lyric\<close> is the
  result of \<^verbatim>\<open>ET.fromstring(response.content)\<close> followed by the search for the first
  \<^verbatim>\<open>Lyric\<close> element: an exception, no element (\<open>None\<close>), or the element's
  \<^verbatim>\<open>text\<close> attribute, itself None or a str.
\<close>

record response =
  status_code :: int
  json :: "exn + pyval"
  xml_lyric :: "exn + string option option"

type_synonym path = "string list"

datatype format = FLAC | MP3 | MP4

type_synonym tags = "(string \<times> string list) list"

datatype write_outcome = Written | OpenFailed exn | WriteFailed exn string

text \<open>
  The environment of a run. \<open>http\<close> answers a request given the requests sent before it
  (it may raise); \<open>mutagen\<close> opens an audio file with the constructor of the given format
  and yields its tag dictionary (None when the file has no tag block); \<open>disk\<close> says how
  writing a text to a path ends (for \<open>WriteFailed\<close>, with the content left in the file
  that \<^verbatim>\<open>open\<close> created); \<open>tree\<close> lists every path below the root directory,
  each as its list of components; \<open>delay\<close> is the parser's \<^verbatim>\<open>delay\<close> attribute.
\<close>

record env =
  http :: "request list \<Rightarrow> request \<Rightarrow> exn + response"
  mutagen :: "format \<Rightarrow> path \<Rightarrow> exn + tags option"
  disk :: "path \<Rightarrow> string \<Rightarrow> write_outcome"
  directory_exists :: bool
  tree :: "path list"
  delay :: real

text \<open>
  What the program does to the world, in the order in which it does it: a request sent, an
  audio file opened for its tags, a text file opened for writing with the text to write
  and how the write ended, a pause.
\<close>

datatype event =
  Request request | ReadTags path | WriteFile path string write_outcome | Sleep real

text \<open>
  The mutable part: the requests sent, the audio files opened for their tags, the text
  files on disk, the pauses taken, and the three counters of \<^verbatim>\<open>AudioParser\<close>.
  \<open>trace\<close> holds all the effects in the one order of their occurrence.
\<close>

record state =
  requests :: "request list"
  metadata_reads :: "path list"
  files :: "path \<rightharpoonup> string"
  sleeps :: "real list"
  trace :: "event list"
  processed :: nat
  found :: nat
  errors :: nat

definition session_get :: "env \<Rightarrow> request \<Rightarrow> state \<Rightarrow> (exn + response) \<times> state" where
  "session_get e rq s =
     (http e (requests s) rq,
      s\<lparr>requests := requests s @ [rq], trace := trace s @ [Request rq]\<rparr>)"

section \<open>The lyrics sources\<close>

text \<open>
  The body of every source is one \<^verbatim>\<open>try\<close> block whose handler returns None, so a
  source is a total function: \<open>except_none\<close> is that handler.
  \<^verbatim>\<open>fetch_lyrics_api\<close>, which nothing calls, is left out.
\<close>

definition except_none :: "exn + pyval \<Rightarrow> pyval" where
  "except_none r = (case r of Inl e \<Rightarrow> PNone | Inr v \<Rightarrow> v)"

definition lrclib_request :: "string \<Rightarrow> string \<Rightarrow> request" where
  "lrclib_request artist title =
     \<lparr>url = ''https://lrclib.net/api/search'',
      params = [(''artist_name'', artist), (''track_name'', title)], timeout = 10\<rparr>"

definition lrclib_body :: "response \<Rightarrow> exn + pyval" where
  "lrclib_body resp =
     (if status_code resp = 200 then
        bnd (json resp) (\<lambda>data.
        bnd (if truthy data then bnd (py_len data) (\<lambda>n. Inr (0 < n)) else Inr False) (\<lambda>nonempty.
          if nonempty then
            bnd (py_item0 data) (\<lambda>first.
            bnd (py_get first ''plainLyrics'' (PStr [])) (\<lambda>plain.
            bnd (if truthy plain then Inr plain else py_get first ''syncedLyrics'' (PStr []))
              (\<lambda>lyrics. if truthy lyrics then Inr lyrics else Inr PNone)))
          else Inr PNone))
      else Inr PNone)"

definition fetch_lyrics_lrclib :: "env \<Rightarrow> string \<Rightarrow> string \<Rightarrow> state \<Rightarrow> pyval \<times> state" where
  "fetch_lyrics_lrclib e artist title s =
     (let (r, s') = session_get e (lrclib_request artist title) s
      in (except_none (bnd r lrclib_body), s'))"

definition chartlyrics_request :: "string \<Rightarrow> string \<Rightarrow> request" where
  "chartlyrics_request artist title =
     \<lparr>url = ''http://api.chartlyrics.com/apiv1.asmx/SearchLyricDirect'',
      params = [(''artist'', artist), (''song'', title)], timeout = 10\<rparr>"

definition chartlyrics_body :: "response \<Rightarrow> exn + pyval" where
  "chartlyrics_body resp =
     (if status_code resp = 200 then
        bnd (xml_lyric resp) (\<lambda>lyrics.
          case lyrics of
            Some (Some txt) \<Rightarrow> if txt \<noteq> [] then Inr (PStr txt) else Inr PNone
          | _ \<Rightarrow> Inr PNone)
      else Inr PNone)"

definition fetch_lyrics_chartlyrics :: "env \<Rightarrow> string \<Rightarrow> string \<Rightarrow> state \<Rightarrow> pyval \<times> state" where
  "fetch_lyrics_chartlyrics e artist title s =
     (let (r, s') = session_get e (chartlyrics_request artist title) s
      in (except_none (bnd r chartlyrics_body), s'))"

definition ovh_request :: "string \<Rightarrow> string \<Rightarrow> request" where
  "ovh_request artist title =
     \<lparr>url = ''https://api.lyrics.ovh/v1/'' @ artist @ ''/'' @ title, params = [], timeout = 10\<rparr>"

definition ovh_body :: "response \<Rightarrow> exn + pyval" where
  "ovh_body resp =
     (if status_code resp = 200 then
        bnd (json resp) (\<lambda>data.
        bnd (py_get data ''lyrics'' (PStr [])) (\<lambda>lyrics.
          if truthy lyrics then Inr lyrics else Inr PNone))
      else Inr PNone)"

definition fetch_lyrics_ovh :: "env \<Rightarrow> string \<Rightarrow> string \<Rightarrow> state \<Rightarrow> pyval \<times> state" where
  "fetch_lyrics_ovh e artist title s =
     (let (r, s') = session_get e (ovh_request artist title) s
      in (except_none (bnd r ovh_body), s'))"

section \<open>The fallback chain\<close>

text \<open>The attribute set by \<^verbatim>\<open>LyricsFetcher.__init__\<close>, commented as the priority order.\<close>

definition api_sources :: "string list" where
  "api_sources = [''lrclib'', ''lyrics.ovh'']"

text \<open>
  \<^verbatim>\<open>fetch_lyrics\<close> tries LRCLIB and ChartLyrics with the tags as they are and
  lyrics.ovh with the cleaned tags; a truthy answer is returned stripped. The result is
  None, a str, or the \<^verbatim>\<open>AttributeError\<close> of \<^verbatim>\<open>strip\<close> on a value that is
  no str.
\<close>

definition found_lyrics :: "pyval \<Rightarrow> exn + string option" where
  "found_lyrics lyrics = bnd (py_strip lyrics) (\<lambda>t. Inr (Some t))"

definition fetch_lyrics ::
  "env \<Rightarrow> string \<Rightarrow> string \<Rightarrow> state \<Rightarrow> (exn + string option) \<times> state" where
  "fetch_lyrics e artist title s =
     (let artist_clean = clean artist;
          title_clean = clean title;
          (lyrics1, s1) = fetch_lyrics_lrclib e artist title s
      in if truthy lyrics1 then (found_lyrics lyrics1, s1)
         else
           let (lyrics2, s2) = fetch_lyrics_chartlyrics e artist title s1
           in if truthy lyrics2 then (found_lyrics lyrics2, s2)
              else
                let (lyrics3, s3) = fetch_lyrics_ovh e artist_clean title_clean s2
                in if truthy lyrics3 then (found_lyrics lyrics3, s3)
                   else (Inr None, s3))"

section \<open>Paths\<close>

text \<open>
  A path is the list of its components below the root directory, the last one being its
  name; \<open>path_suffix\<close> and \<open>with_suffix\<close> are the \<^verbatim>\<open>pathlib\<close> operations
  (the suffix \<^verbatim>\<open>'.txt'\<close> that the program passes is a valid one).
\<close>

definition path_name :: "path \<Rightarrow> string" where
  "path_name p = (if p = [] then [] else last p)"

text \<open>\<^verbatim>\<open>name.rfind('.')\<close>, with None for -1.\<close>

definition rfind_dot :: "string \<Rightarrow> nat option" where
  "rfind_dot name =
     (let k = length (takeWhile (\<lambda>c. c \<noteq> CHR ''.'') (rev name))
      in if k = length name then None else Some (length name - 1 - k))"

definition path_suffix :: "path \<Rightarrow> string" where
  "path_suffix p =
     (let name = path_name p
      in case rfind_dot name of
           None \<Rightarrow> []
         | Some i \<Rightarrow> if 0 < i \<and> i + 1 < length name then drop i name else [])"

definition with_suffix :: "path \<Rightarrow> string \<Rightarrow> exn + path" where
  "with_suffix p sfx =
     (let name = path_name p
      in if name = [] then Inl ValueError
         else
           let old_suffix = path_suffix p;
               stem = (if old_suffix = [] then name
                       else take (length name - length old_suffix) name)
           in Inr (butlast p @ [stem @ sfx]))"

section \<open>Reading the tags\<close>

definition item0 :: "'a list \<Rightarrow> exn + 'a" where
  "item0 xs = (case xs of [] \<Rightarrow> Inl IndexError | x # _ \<Rightarrow> Inr x)"

definition str_truthy :: "string option \<Rightarrow> bool" where
  "str_truthy v = (case v of None \<Rightarrow> False | Some t \<Rightarrow> t \<noteq> [])"

text \<open>The str behind a truthy value.\<close>

definition str_of :: "string option \<Rightarrow> string" where
  "str_of v = (case v of None \<Rightarrow> [] | Some t \<Rightarrow> t)"

text \<open>\<^verbatim>\<open>audio.get(key, [None])[0]\<close>, also for a file whose \<^verbatim>\<open>tags\<close> are None.\<close>

definition get_first :: "tags option \<Rightarrow> string \<Rightarrow> exn + string option" where
  "get_first tg key =
     (case (case tg of None \<Rightarrow> None | Some kvs \<Rightarrow> map_of kvs key) of
        None \<Rightarrow> Inr None
      | Some vs \<Rightarrow> bnd (item0 vs) (\<lambda>v. Inr (Some v)))"

definition tags_truthy :: "tags option \<Rightarrow> bool" where
  "tags_truthy tg = (case tg of None \<Rightarrow> False | Some kvs \<Rightarrow> kvs \<noteq> [])"

text \<open>
  The same on a FLAC file, whose comments are looked up without regard to the case of the
  key: the values of all the comments of that key, the first of which is taken, and None
  when there is none.
\<close>

definition flac_first :: "tags option \<Rightarrow> string \<Rightarrow> exn + string option" where
  "flac_first tg key =
     (case tg of
        None \<Rightarrow> Inr None
      | Some kvs \<Rightarrow>
          (case concat (map snd (filter (\<lambda>kv. map py_lower (fst kv) = map py_lower key) kvs)) of
             [] \<Rightarrow> Inr None
           | v # _ \<Rightarrow> Inr (Some v)))"

definition flac_tag :: "tags option \<Rightarrow> string \<Rightarrow> string \<Rightarrow> exn + string option" where
  "flac_tag audio lower upper =
     bnd (flac_first audio lower) (\<lambda>v. if str_truthy v then Inr v else flac_first audio upper)"

text \<open>\<^verbatim>\<open>str(audio.tags.get(key, [''])[0]) if key in audio.tags else None\<close>.\<close>

definition mp3_tag :: "tags option \<Rightarrow> string \<Rightarrow> exn + string option" where
  "mp3_tag tg key =
     (case (case tg of None \<Rightarrow> None | Some kvs \<Rightarrow> map_of kvs key) of
        None \<Rightarrow> Inr None
      | Some vs \<Rightarrow> bnd (item0 vs) (\<lambda>v. Inr (Some v)))"

definition mp4_tag :: "tags option \<Rightarrow> string \<Rightarrow> exn + string option" where
  "mp4_tag tg key = (if tags_truthy tg then get_first tg key else Inr None)"

definition read_tags :: "env \<Rightarrow> format \<Rightarrow> path \<Rightarrow> exn + string option \<times> string option" where
  "read_tags e fmt p =
     bnd (mutagen e fmt p) (\<lambda>audio.
       case fmt of
         FLAC \<Rightarrow>
           bnd (flac_tag audio ''artist'' ''ARTIST'') (\<lambda>artist.
           bnd (flac_tag audio ''title'' ''TITLE'') (\<lambda>title. Inr (artist, title)))
       | MP3 \<Rightarrow>
           (if tags_truthy audio then
              bnd (mp3_tag audio ''TPE1'') (\<lambda>artist.
              bnd (mp3_tag audio ''TIT2'') (\<lambda>title. Inr (artist, title)))
            else Inr (None, None))
       | MP4 \<Rightarrow>
           bnd (mp4_tag audio (CHR 0xA9 # ''ART'')) (\<lambda>artist.
           bnd (mp4_tag audio (CHR 0xA9 # ''nam'')) (\<lambda>title. Inr (artist, title))))"

definition format_of :: "string \<Rightarrow> format option" where
  "format_of sfx =
     (if sfx = ''.flac'' then Some FLAC
      else if sfx = ''.mp3'' then Some MP3
      else if sfx = ''.m4a'' \<or> sfx = ''.mp4'' then Some MP4
      else None)"

text \<open>
  The whole body of \<^verbatim>\<open>extract_metadata\<close> is a \<^verbatim>\<open>try\<close> block whose handler
  returns \<^verbatim>\<open>(None, None)\<close>.
\<close>

definition extract_metadata ::
  "env \<Rightarrow> path \<Rightarrow> state \<Rightarrow> (string option \<times> string option) \<times> state" where
  "extract_metadata e audio_path s =
     (case format_of (map py_lower (path_suffix audio_path)) of
        None \<Rightarrow> ((None, None), s)
      | Some fmt \<Rightarrow>
          (case read_tags e fmt audio_path of
             Inl ex \<Rightarrow> (None, None)
           | Inr found_tags \<Rightarrow> found_tags,
           s\<lparr>metadata_reads := metadata_reads s @ [audio_path],
             trace := trace s @ [ReadTags audio_path]\<rparr>))"

section \<open>Saving and processing one file\<close>

definition save_lyrics :: "env \<Rightarrow> path \<Rightarrow> string \<Rightarrow> state \<Rightarrow> (exn + bool) \<times> state" where
  "save_lyrics e audio_path lyrics s =
     (case with_suffix audio_path ''.txt'' of
        Inl ex \<Rightarrow> (Inl ex, s)
      | Inr txt_path \<Rightarrow>
          (case disk e txt_path lyrics of
             Written \<Rightarrow>
               (Inr True,
                s\<lparr>files := (files s)(txt_path \<mapsto> lyrics),
                  trace := trace s @ [WriteFile txt_path lyrics Written]\<rparr>)
           | OpenFailed ex \<Rightarrow>
               (Inr False, s\<lparr>trace := trace s @ [WriteFile txt_path lyrics (OpenFailed ex)]\<rparr>)
           | WriteFailed ex left \<Rightarrow>
               (Inr False,
                s\<lparr>files := (files s)(txt_path \<mapsto> left),
                  trace := trace s @ [WriteFile txt_path lyrics (WriteFailed ex left)]\<rparr>)))"

definition time_sleep :: "real \<Rightarrow> state \<Rightarrow> state" where
  "time_sleep d s = s\<lparr>sleeps := sleeps s @ [d], trace := trace s @ [Sleep d]\<rparr>"

definition process_audio_file :: "env \<Rightarrow> path \<Rightarrow> state \<Rightarrow> (exn + unit) \<times> state" where
  "process_audio_file e audio_path s =
     (case with_suffix audio_path ''.txt'' of
        Inl ex \<Rightarrow> (Inl ex, s)
      | Inr txt_path \<Rightarrow>
          (if files s txt_path \<noteq> None then (Inr (), s)
           else
             (let ((artist, title), s1) = extract_metadata e audio_path s
              in if \<not> str_truthy artist \<or> \<not> str_truthy title
                 then (Inr (), s1\<lparr>errors := errors s1 + 1\<rparr>)
                 else
                   (let (r, s2) = fetch_lyrics e (str_of artist) (str_of title) s1
                    in (case r of
                          Inl ex \<Rightarrow> (Inl ex, s2)
                        | Inr lyrics \<Rightarrow>
                            (let (r3, s3) =
                                   (if str_truthy lyrics then
                                      (let (saved, s') = save_lyrics e audio_path (str_of lyrics) s2
                                       in (saved,
                                           if saved = Inr True then s'\<lparr>found := found s' + 1\<rparr>
                                           else s'))
                                    else (Inr False, s2\<lparr>errors := errors s2 + 1\<rparr>))
                             in (case r3 of
                                   Inl ex \<Rightarrow> (Inl ex, s3)
                                 | Inr b \<Rightarrow>
                                     (Inr (),
                                      time_sleep (delay e)
                                        (s3\<lparr>processed := processed s3 + 1\<rparr>)))))))))"

section \<open>Scanning the directory\<close>

text \<open>
  \<^verbatim>\<open>rglob\<close> yields the paths below the root, of files and of directories alike, whose
  name matches the pattern; on the POSIX flavour of \<^verbatim>\<open>pathlib\<close> the match is case
  sensitive. \<open>fnmatch\<close> covers the pattern language the program uses: \<^verbatim>\<open>*\<close> and
  literal characters.
\<close>

fun fnmatch :: "string \<Rightarrow> string \<Rightarrow> bool" where
  "fnmatch [] name = (name = [])"
| "fnmatch (c # pat) name =
     (if c = CHR ''*'' then list_ex (\<lambda>k. fnmatch pat (drop k name)) [0..<Suc (length name)]
      else (case name of [] \<Rightarrow> False | d # rest \<Rightarrow> c = d \<and> fnmatch pat rest))"

definition rglob :: "env \<Rightarrow> string \<Rightarrow> path list" where
  "rglob e pattern = filter (\<lambda>p. fnmatch pattern (path_name p)) (tree e)"

definition patterns :: "string list" where
  "patterns = [''*.flac'', ''*.FLAC'', ''*.mp3'', ''*.MP3'', ''*.m4a'', ''*.M4A'', ''*.mp4'', ''*.MP4'']"

text \<open>
  \<open>audio_files\<close> is the list the loop of \<^verbatim>\<open>process_directory\<close> runs over:
  the matches of all patterns, through \<^verbatim>\<open>set\<close> and \<^verbatim>\<open>sorted\<close>. Paths compare
  as the lists of their components, strings by code point.
\<close>

definition audio_files :: "env \<Rightarrow> path list" where
  "audio_files e = sort (remdups (concat (map (rglob e) patterns)))"

fun process_files :: "env \<Rightarrow> path list \<Rightarrow> state \<Rightarrow> (exn + unit) \<times> state" where
  "process_files e [] s = (Inr (), s)"
| "process_files e (p # ps) s =
     (case process_audio_file e p s of
        (Inl ex, s') \<Rightarrow> (Inl ex, s')
      | (Inr u, s') \<Rightarrow> process_files e ps s')"

definition process_directory :: "env \<Rightarrow> state \<Rightarrow> (exn + unit) \<times> state" where
  "process_directory e s =
     (if \<not> directory_exists e then (Inr (), s)
      else if audio_files e = [] then (Inr (), s)
      else process_files e (audio_files e) s)"

text \<open>
  The test \<^verbatim>\<open>txt_path.exists()\<close> of \<^verbatim>\<open>process_audio_file\<close>: the sibling text
  file of an audio file is there.
\<close>

definition has_sidecar :: "state \<Rightarrow> path \<Rightarrow> bool" where
  "has_sidecar s audio_path =
     (case with_suffix audio_path ''.txt'' of
        Inl ex \<Rightarrow> False
      | Inr txt_path \<Rightarrow> files s txt_path \<noteq> None)"

text \<open>A new \<^verbatim>\<open>AudioParser\<close>: the three counters at zero.\<close>

definition new_parser :: "state \<Rightarrow> state" where
  "new_parser s = s\<lparr>processed := 0, found := 0, errors := 0\<rparr>"

section \<open>The chain as the specification words it\<close>

text \<open>
  The specification describes the chain over a list of sources: try each in order, stop
  at the first present result and return it, and return absence when every source is
  absent. \<open>chain_spec\<close> is that description; \<open>sources_in_order\<close> lists the calls of
  \<^verbatim>\<open>fetch_lyrics\<close> in the order it makes them.
\<close>

fun chain_spec :: "(state \<Rightarrow> pyval \<times> state) list \<Rightarrow> state \<Rightarrow> pyval \<times> state" where
  "chain_spec [] s = (PNone, s)"
| "chain_spec (src # rest) s =
     (let (v, s') = src s in if truthy v then (v, s') else chain_spec rest s')"

definition sources_in_order :: "env \<Rightarrow> string \<Rightarrow> string \<Rightarrow> (state \<Rightarrow> pyval \<times> state) list" where
  "sources_in_order e artist title =
     [fetch_lyrics_lrclib e artist title,
      fetch_lyrics_chartlyrics e artist title,
      fetch_lyrics_ovh e (clean artist) (clean title)]"

text \<open>The source a request goes to, named as \<open>api_sources\<close> names them.\<close>

definition source_of :: "request \<Rightarrow> string" where
  "source_of rq =
     (if prefix ''https://lrclib.net/'' (url rq) then ''lrclib''
      else if prefix ''http://api.chartlyrics.com/'' (url rq) then ''chartlyrics''
      else if prefix ''https://api.lyrics.ovh/'' (url rq) then ''lyrics.ovh''
      else ''unknown'')"

section \<open>Example runs\<close>

definition state0 :: state where
  "state0 = \<lparr>requests = [], metadata_reads = [], files = Map.empty, sleeps = [], trace = [],
     processed = 0, found = 0, errors = 0\<rparr>"

definition not_found :: response where
  "not_found = \<lparr>status_code = 404, json = Inl JSONDecodeError, xml_lyric = Inl ParseError\<rparr>"

text \<open>A network where every source answers 404.\<close>

definition no_lyrics :: "request list \<Rightarrow> request \<Rightarrow> exn + response" where
  "no_lyrics sent rq = Inr not_found"

text \<open>
  A network where LRCLIB answers 200 with one candidate whose \<^verbatim>\<open>plainLyrics\<close>
  field is \<open>v\<close>, and the other sources answer 404.
\<close>

definition lrclib_answers :: "pyval \<Rightarrow> request list \<Rightarrow> request \<Rightarrow> exn + response" where
  "lrclib_answers v sent rq =
     (if url rq = ''https://lrclib.net/api/search''
      then Inr \<lparr>status_code = 200, json = Inr (PList [PDict [(''plainLyrics'', v)]]),
                xml_lyric = Inl ParseError\<rparr>
      else Inr not_found)"

text \<open>
  A run over a directory holding the paths \<open>ps\<close>, all audio files carrying the tags
  \<open>tg\<close>, every write ending as \<open>w\<close>, with the delay of \<^verbatim>\<open>main\<close>.
\<close>

definition scenario ::
  "(request list \<Rightarrow> request \<Rightarrow> exn + response) \<Rightarrow> tags option \<Rightarrow> write_outcome \<Rightarrow> path list
    \<Rightarrow> env" where
  "scenario net tg w ps =
     \<lparr>http = net, mutagen = (\<lambda>fmt p. Inr tg), disk = (\<lambda>p t. w), directory_exists = True,
      tree = ps, delay = 2\<rparr>"

definition test_tags :: "tags option" where
  "test_tags = Some [(''artist'', [''Test Artist'']), (''title'', [''Test Song''])]"

section \<open>What each step changes\<close>

lemma bnd_simps:
  "bnd (Inl ex) f = Inl ex"
  "bnd (Inr v) f = f v"
  by (simp_all add: bnd_def)

lemma fetch_lyrics_lrclib_state:
  "snd (fetch_lyrics_lrclib e artist title s) =
     s\<lparr>requests := requests s @ [lrclib_request artist title],
       trace := trace s @ [Request (lrclib_request artist title)]\<rparr>"
  by (simp add: fetch_lyrics_lrclib_def session_get_def)

lemma fetch_lyrics_chartlyrics_state:
  "snd (fetch_lyrics_chartlyrics e artist title s) =
     s\<lparr>requests := requests s @ [chartlyrics_request artist title],
       trace := trace s @ [Request (chartlyrics_request artist title)]\<rparr>"
  by (simp add: fetch_lyrics_chartlyrics_def session_get_def)

lemma fetch_lyrics_ovh_state:
  "snd (fetch_lyrics_ovh e artist title s) =
     s\<lparr>requests := requests s @ [ovh_request artist title],
       trace := trace s @ [Request (ovh_request artist title)]\<rparr>"
  by (simp add: fetch_lyrics_ovh_def session_get_def)

lemma fetch_lyrics_state:
  "\<exists>rs. rs \<noteq> [] \<and> snd (fetch_lyrics e artist title s) =
     s\<lparr>requests := requests s @ rs, trace := trace s @ map Request rs\<rparr>"
proof -
  let ?r1 = "lrclib_request artist title"
  let ?r2 = "chartlyrics_request artist title"
  let ?r3 = "ovh_request (clean artist) (clean title)"
  obtain v1 s1 where l1: "fetch_lyrics_lrclib e artist title s = (v1, s1)"
    by (cases "fetch_lyrics_lrclib e artist title s")
  obtain v2 s2 where l2: "fetch_lyrics_chartlyrics e artist title s1 = (v2, s2)"
    by (cases "fetch_lyrics_chartlyrics e artist title s1")
  obtain v3 s3 where l3: "fetch_lyrics_ovh e (clean artist) (clean title) s2 = (v3, s3)"
    by (cases "fetch_lyrics_ovh e (clean artist) (clean title) s2")
  have e1: "s1 = s\<lparr>requests := requests s @ [?r1], trace := trace s @ map Request [?r1]\<rparr>"
    using fetch_lyrics_lrclib_state [of e artist title s] l1 by simp
  have e2: "s2 = s\<lparr>requests := requests s @ [?r1, ?r2],
      trace := trace s @ map Request [?r1, ?r2]\<rparr>"
    using fetch_lyrics_chartlyrics_state [of e artist title s1] l2 by (simp add: e1)
  have e3: "s3 = s\<lparr>requests := requests s @ [?r1, ?r2, ?r3],
      trace := trace s @ map Request [?r1, ?r2, ?r3]\<rparr>"
    using fetch_lyrics_ovh_state [of e "clean artist" "clean title" s2] l3 by (simp add: e2)
  have "snd (fetch_lyrics e artist title s) = s1 \<or> snd (fetch_lyrics e artist title s) = s2
      \<or> snd (fetch_lyrics e artist title s) = s3"
    by (simp add: fetch_lyrics_def l1 l2 l3 Let_def)
  then show ?thesis
  proof (elim disjE)
    assume "snd (fetch_lyrics e artist title s) = s1"
    with e1 show ?thesis by (intro exI [where x = "[?r1]"]) simp
  next
    assume "snd (fetch_lyrics e artist title s) = s2"
    with e2 show ?thesis by (intro exI [where x = "[?r1, ?r2]"]) simp
  next
    assume "snd (fetch_lyrics e artist title s) = s3"
    with e3 show ?thesis by (intro exI [where x = "[?r1, ?r2, ?r3]"]) simp
  qed
qed

lemma extract_metadata_state:
  "snd (extract_metadata e p s) = s
    \<or> snd (extract_metadata e p s) =
        s\<lparr>metadata_reads := metadata_reads s @ [p], trace := trace s @ [ReadTags p]\<rparr>"
  by (simp add: extract_metadata_def split: option.splits)

lemma extract_metadata_found_state:
  assumes "extract_metadata e p s = ((artist, title), s1)" and "str_truthy artist"
  shows "s1 = s\<lparr>metadata_reads := metadata_reads s @ [p], trace := trace s @ [ReadTags p]\<rparr>"
  using assms by (auto simp add: extract_metadata_def str_truthy_def split: option.splits)

lemma save_lyrics_state:
  "\<exists>fs tr. snd (save_lyrics e p lyrics s) = s\<lparr>files := fs, trace := tr\<rparr>"
proof -
  have "snd (save_lyrics e p lyrics s) =
      s\<lparr>files := files (snd (save_lyrics e p lyrics s)),
        trace := trace (snd (save_lyrics e p lyrics s))\<rparr>"
    by (simp add: save_lyrics_def Let_def split: sum.splits write_outcome.splits)
  then show ?thesis by blast
qed

lemma fetch_lyrics_sends:
  "requests (snd (fetch_lyrics e artist title s)) \<noteq> requests s"
proof -
  obtain rs where "rs \<noteq> []"
    and "snd (fetch_lyrics e artist title s) =
      s\<lparr>requests := requests s @ rs, trace := trace s @ map Request rs\<rparr>"
    using fetch_lyrics_state [of e artist title s] by blast
  then show ?thesis by simp
qed

lemma process_missing_metadata:
  assumes "with_suffix audio_path ''.txt'' = Inr txt_path"
    and "files s txt_path = None"
    and "extract_metadata e audio_path s = ((artist, title), s1)"
    and "\<not> str_truthy artist \<or> \<not> str_truthy title"
  shows "process_audio_file e audio_path s = (Inr (), s1\<lparr>errors := errors s1 + 1\<rparr>)"
  using assms by (auto simp add: process_audio_file_def)

lemma process_fetched:
  assumes "with_suffix audio_path ''.txt'' = Inr txt_path"
    and "files s txt_path = None"
    and "extract_metadata e audio_path s = ((artist, title), s1)"
    and "str_truthy artist" and "str_truthy title"
    and "fetch_lyrics e (str_of artist) (str_of title) s1 = (Inr lyrics, s2)"
  shows "process_audio_file e audio_path s =
     (Inr (),
      time_sleep (delay e)
        ((if str_truthy lyrics then
            (case disk e txt_path (str_of lyrics) of
               Written \<Rightarrow>
                 s2\<lparr>files := (files s2)(txt_path \<mapsto> str_of lyrics),
                   trace := trace s2 @ [WriteFile txt_path (str_of lyrics) Written],
                   found := found s2 + 1\<rparr>
             | OpenFailed ex \<Rightarrow>
                 s2\<lparr>trace := trace s2 @ [WriteFile txt_path (str_of lyrics) (OpenFailed ex)]\<rparr>
             | WriteFailed ex left \<Rightarrow>
                 s2\<lparr>files := (files s2)(txt_path \<mapsto> left),
                   trace := trace s2 @ [WriteFile txt_path (str_of lyrics) (WriteFailed ex left)]\<rparr>)
          else s2\<lparr>errors := errors s2 + 1\<rparr>)
         \<lparr>processed := processed s2 + 1\<rparr>))"
  using assms
  by (simp add: process_audio_file_def save_lyrics_def Let_def split: write_outcome.splits)

lemma process_fetch_raises:
  assumes "with_suffix audio_path ''.txt'' = Inr txt_path"
    and "files s txt_path = None"
    and "extract_metadata e audio_path s = ((artist, title), s1)"
    and "str_truthy artist" and "str_truthy title"
    and "fetch_lyrics e (str_of artist) (str_of title) s1 = (Inl ex, s2)"
  shows "process_audio_file e audio_path s = (Inl ex, s2)"
  using assms by (simp add: process_audio_file_def)

lemma extract_metadata_fields:
  assumes "extract_metadata e p s = (m, s1)"
  shows "requests s1 = requests s" "files s1 = files s" "sleeps s1 = sleeps s"
    "processed s1 = processed s" "found s1 = found s" "errors s1 = errors s"
  using extract_metadata_state [of e p s] assms by auto

lemma fetch_lyrics_fields:
  assumes "fetch_lyrics e a t s = (r, s1)"
  shows "metadata_reads s1 = metadata_reads s" "files s1 = files s" "sleeps s1 = sleeps s"
    "processed s1 = processed s" "found s1 = found s" "errors s1 = errors s"
  using fetch_lyrics_state [of e a t s] assms by auto

section \<open>The example runs, evaluated\<close>

lemma song_txt: "with_suffix [''song.flac''] ''.txt'' = Inr [''song.txt'']"
  by (simp add: with_suffix_def path_name_def path_suffix_def rfind_dot_def)

lemma untagged_txt: "with_suffix [''untagged.mp3''] ''.txt'' = Inr [''untagged.txt'']"
  by (simp add: with_suffix_def path_name_def path_suffix_def rfind_dot_def)

lemma song_metadata:
  "extract_metadata (scenario net test_tags w ps) [''song.flac''] s =
     ((Some ''Test Artist'', Some ''Test Song''),
      s\<lparr>metadata_reads := metadata_reads s @ [[''song.flac'']],
        trace := trace s @ [ReadTags [''song.flac'']]\<rparr>)"
  by (simp add: extract_metadata_def path_name_def path_suffix_def rfind_dot_def py_lower_def
      format_of_def read_tags_def scenario_def test_tags_def bnd_simps flac_tag_def
      flac_first_def str_truthy_def)

lemma untagged_metadata:
  "extract_metadata (scenario net None w ps) [''untagged.mp3''] s =
     ((None, None),
      s\<lparr>metadata_reads := metadata_reads s @ [[''untagged.mp3'']],
        trace := trace s @ [ReadTags [''untagged.mp3'']]\<rparr>)"
  by (simp add: extract_metadata_def path_name_def path_suffix_def rfind_dot_def py_lower_def
      format_of_def read_tags_def scenario_def bnd_simps tags_truthy_def)

lemma lrclib_answers_source:
  "fetch_lyrics_lrclib (scenario (lrclib_answers v) tg w ps) artist title s =
     ((if truthy v then v else PNone),
      s\<lparr>requests := requests s @ [lrclib_request artist title],
        trace := trace s @ [Request (lrclib_request artist title)]\<rparr>)"
  by (simp add: fetch_lyrics_lrclib_def session_get_def scenario_def lrclib_answers_def
      lrclib_request_def lrclib_body_def bnd_simps except_none_def)

lemma lrclib_answers_fetch:
  assumes "txt \<noteq> []"
  shows "fetch_lyrics (scenario (lrclib_answers (PStr txt)) tg w ps) artist title s =
     (Inr (Some (strip txt)),
      s\<lparr>requests := requests s @ [lrclib_request artist title],
        trace := trace s @ [Request (lrclib_request artist title)]\<rparr>)"
  using assms by (simp add: fetch_lyrics_def lrclib_answers_source found_lyrics_def bnd_simps)


lemma no_lyrics_sources:
  "fetch_lyrics_lrclib (scenario no_lyrics tg w ps) artist title s =
     (PNone, s\<lparr>requests := requests s @ [lrclib_request artist title],
        trace := trace s @ [Request (lrclib_request artist title)]\<rparr>)"
  "fetch_lyrics_chartlyrics (scenario no_lyrics tg w ps) artist title s =
     (PNone, s\<lparr>requests := requests s @ [chartlyrics_request artist title],
        trace := trace s @ [Request (chartlyrics_request artist title)]\<rparr>)"
  "fetch_lyrics_ovh (scenario no_lyrics tg w ps) artist title s =
     (PNone, s\<lparr>requests := requests s @ [ovh_request artist title],
        trace := trace s @ [Request (ovh_request artist title)]\<rparr>)"
  by (simp_all add: fetch_lyrics_lrclib_def fetch_lyrics_chartlyrics_def fetch_lyrics_ovh_def
      session_get_def scenario_def no_lyrics_def not_found_def lrclib_body_def
      chartlyrics_body_def ovh_body_def bnd_simps except_none_def)

lemma lrclib_answers_others:
  "fetch_lyrics_chartlyrics (scenario (lrclib_answers v) tg w ps) artist title s =
     (PNone, s\<lparr>requests := requests s @ [chartlyrics_request artist title],
        trace := trace s @ [Request (chartlyrics_request artist title)]\<rparr>)"
  "fetch_lyrics_ovh (scenario (lrclib_answers v) tg w ps) artist title s =
     (PNone, s\<lparr>requests := requests s @ [ovh_request artist title],
        trace := trace s @ [Request (ovh_request artist title)]\<rparr>)"
  by (simp_all add: fetch_lyrics_chartlyrics_def fetch_lyrics_ovh_def session_get_def
      scenario_def lrclib_answers_def not_found_def chartlyrics_request_def ovh_request_def
      chartlyrics_body_def ovh_body_def bnd_simps except_none_def)

lemma no_lyrics_fetch:
  "fetch_lyrics (scenario no_lyrics tg w ps) artist title s =
     (Inr None,
      s\<lparr>requests := requests s @ [lrclib_request artist title, chartlyrics_request artist title,
          ovh_request (clean artist) (clean title)],
        trace := trace s @ [Request (lrclib_request artist title),
          Request (chartlyrics_request artist title),
          Request (ovh_request (clean artist) (clean title))]\<rparr>)"
  by (simp add: fetch_lyrics_def no_lyrics_sources Let_def)

lemma clean_test_tags:
  "clean ''Test Artist'' = ''Test Artist''" "clean ''Test Song'' = ''Test Song''"
  by (simp_all add: clean_def strip_def py_isspace_def py_isword_def)

section \<open>A file that already has its lyrics\<close>

text \<open>
  Claim C2. When the sibling \<^verbatim>\<open>.txt\<close> file of an audio file exists at the moment
  the file is processed, \<^verbatim>\<open>process_audio_file\<close> returns with the state as it was:
  the text file keeps its content, no tags are read, no request is sent, and neither the
  found nor the error counter moves.
\<close>

theorem existing_sidecar_untouched:
  assumes "with_suffix audio_path ''.txt'' = Inr txt_path"
    and "files s txt_path = Some old"
  shows "process_audio_file e audio_path s = (Inr (), s)
    \<and> files (snd (process_audio_file e audio_path s)) txt_path = Some old
    \<and> metadata_reads (snd (process_audio_file e audio_path s)) = metadata_reads s
    \<and> requests (snd (process_audio_file e audio_path s)) = requests s
    \<and> found (snd (process_audio_file e audio_path s)) = found s
    \<and> errors (snd (process_audio_file e audio_path s)) = errors s"
  using assms by (simp add: process_audio_file_def)

theorem existing_sidecar_untouched_witness:
  "process_audio_file (scenario (lrclib_answers (PStr ''La la la'')) test_tags Written [[''song.flac'']])
      [''song.flac''] (state0\<lparr>files := [[''song.txt''] \<mapsto> ''kept'']\<rparr>)
     = (Inr (), state0\<lparr>files := [[''song.txt''] \<mapsto> ''kept'']\<rparr>)
   \<and> with_suffix [''song.flac''] ''.txt'' = Inr [''song.txt'']"
proof -
  have w: "with_suffix [''song.flac''] ''.txt'' = Inr [''song.txt'']"
    by (simp add: with_suffix_def path_name_def path_suffix_def rfind_dot_def)
  have f: "files (state0\<lparr>files := [[''song.txt''] \<mapsto> ''kept'']\<rparr>) [''song.txt''] = Some ''kept''"
    by simp
  show ?thesis
    using existing_sidecar_untouched [OF w f] w by simp
qed

section \<open>A file without artist or title\<close>

text \<open>
  Claim C6. When the tags of an audio file are read (its sibling text file does not exist)
  and yield no artist or no title, \<^verbatim>\<open>process_audio_file\<close> returns normally with
  the error counter one higher; no request has been sent, so \<^verbatim>\<open>fetch_lyrics\<close>,
  which always sends one (\<open>fetch_lyrics_sends\<close>), was not called; no file has been
  written; the found and processed counters stand.
\<close>

theorem missing_metadata_counts_error:
  assumes "with_suffix audio_path ''.txt'' = Inr txt_path"
    and "files s txt_path = None"
    and "extract_metadata e audio_path s = ((artist, title), s1)"
    and "\<not> str_truthy artist \<or> \<not> str_truthy title"
    and "process_audio_file e audio_path s = (r, s')"
  shows "r = Inr () \<and> requests s' = requests s \<and> files s' = files s
    \<and> errors s' = errors s + 1 \<and> found s' = found s \<and> processed s' = processed s"
proof -
  have "process_audio_file e audio_path s = (Inr (), s1\<lparr>errors := errors s1 + 1\<rparr>)"
    using assms(1-4) by (rule process_missing_metadata)
  with assms(5) have "r = Inr ()" and "s' = s1\<lparr>errors := errors s1 + 1\<rparr>"
    by simp_all
  then show ?thesis
    using extract_metadata_fields [OF assms(3)] by simp
qed

theorem missing_metadata_counts_error_witness:
  "process_audio_file (scenario no_lyrics None Written [[''untagged.mp3'']]) [''untagged.mp3''] state0
     = (Inr (), state0\<lparr>metadata_reads := [[''untagged.mp3'']], trace := [ReadTags [''untagged.mp3'']], errors := 1\<rparr>)
   \<and> requests (state0\<lparr>metadata_reads := [[''untagged.mp3'']], trace := [ReadTags [''untagged.mp3'']], errors := 1\<rparr>) = requests state0
   \<and> files (state0\<lparr>metadata_reads := [[''untagged.mp3'']], trace := [ReadTags [''untagged.mp3'']], errors := 1\<rparr>) = files state0
   \<and> errors (state0\<lparr>metadata_reads := [[''untagged.mp3'']], trace := [ReadTags [''untagged.mp3'']], errors := 1\<rparr>) = errors state0 + 1"
proof -
  let ?e = "scenario no_lyrics None Written [[''untagged.mp3'']]"
  let ?s1 = "state0\<lparr>metadata_reads := [[''untagged.mp3'']], trace := [ReadTags [''untagged.mp3'']]\<rparr>"
  have none: "files state0 [''untagged.txt''] = None"
    by (simp add: state0_def)
  have meta: "extract_metadata ?e [''untagged.mp3''] state0 = ((None, None), ?s1)"
    by (simp add: untagged_metadata state0_def)
  have falsy: "\<not> str_truthy None \<or> \<not> str_truthy None"
    by (simp add: str_truthy_def)
  have run: "process_audio_file ?e [''untagged.mp3''] state0 = (Inr (), ?s1\<lparr>errors := 1\<rparr>)"
    using process_missing_metadata [OF untagged_txt none meta falsy] by (simp add: state0_def)
  show ?thesis
    using missing_metadata_counts_error [OF untagged_txt none meta falsy run] run by simp
qed

section \<open>A write that fails\<close>



section \<open>The pause between files\<close>

lemma untagged_audio_files:
  "audio_files (scenario net tg w [[''untagged.mp3'']]) = [[''untagged.mp3'']]"
  by (simp add: audio_files_def scenario_def rglob_def patterns_def path_name_def)

lemma song_audio_files:
  "audio_files (scenario net tg w [[''song.flac'']]) = [[''song.flac'']]"
  by (simp add: audio_files_def scenario_def rglob_def patterns_def path_name_def)

lemma untagged_run:
  assumes "files s [''untagged.txt''] = None"
  shows "process_audio_file (scenario net None w ps) [''untagged.mp3''] s =
    (Inr (), s\<lparr>metadata_reads := metadata_reads s @ [[''untagged.mp3'']],
       trace := trace s @ [ReadTags [''untagged.mp3'']], errors := errors s + 1\<rparr>)"
proof -
  have falsy: "\<not> str_truthy None \<or> \<not> str_truthy None"
    by (simp add: str_truthy_def)
  show ?thesis
    using process_missing_metadata [OF untagged_txt assms untagged_metadata falsy] by simp
qed


text \<open>
  Claim C4 says that the pause follows every file that ends in a state other than
  AlreadyHasLyrics, the files with missing metadata included. It does not follow those:
  \<^verbatim>\<open>untagged.mp3\<close>, which has no tags, is counted as an error and no pause is taken.
\<close>

theorem no_pause_after_missing_metadata_counterexample:
  "errors (snd (process_audio_file (scenario no_lyrics None Written [[''untagged.mp3'']])
      [''untagged.mp3''] state0)) = 1
   \<and> sleeps (snd (process_audio_file (scenario no_lyrics None Written [[''untagged.mp3'']])
      [''untagged.mp3''] state0)) = []"
proof -
  have "files state0 [''untagged.txt''] = None"
    by (simp add: state0_def)
  then show ?thesis
    by (simp add: untagged_run) (simp add: state0_def)
qed


text \<open>
  Claim C4, amended. For an audio file whose tags are read and whose processing returns,
  one pause of the configured delay is taken exactly when artist and title are both
  present, that is when the chain was run (lyrics found, not found, or found and not
  saved). The pause is the last thing done for the file: the trace grows by the reading
  of the tags, the requests of the chain (at least one), the write if there is one, and
  then the pause, and the next file starts from there. A file with missing metadata takes
  no pause: its trace grows by the reading of its tags at most.
\<close>

theorem pause_after_fetch:
  assumes "with_suffix audio_path ''.txt'' = Inr txt_path"
    and "files s txt_path = None"
    and "extract_metadata e audio_path s = ((artist, title), s1)"
    and "process_audio_file e audio_path s = (Inr (), s')"
  shows "sleeps s' = (if str_truthy artist \<and> str_truthy title then sleeps s @ [delay e] else sleeps s)
    \<and> (if str_truthy artist \<and> str_truthy title
       then \<exists>rs ws. rs \<noteq> [] \<and> requests s' = requests s @ rs
              \<and> (ws = [] \<or> (\<exists>txt. ws = [WriteFile txt_path txt (disk e txt_path txt)]))
              \<and> trace s' = trace s @ ReadTags audio_path # map Request rs @ ws @ [Sleep (delay e)]
       else trace s' = trace s \<or> trace s' = trace s @ [ReadTags audio_path])
    \<and> process_files e (audio_path # rest) s = process_files e rest s'"
proof -
  have next_file: "process_files e (audio_path # rest) s = process_files e rest s'"
    using assms(4) by simp
  show ?thesis
  proof (cases "str_truthy artist \<and> str_truthy title")
    case False
    then have "\<not> str_truthy artist \<or> \<not> str_truthy title" by simp
    from process_missing_metadata [OF assms(1-3) this] assms(4)
    have "s' = s1\<lparr>errors := errors s1 + 1\<rparr>" by simp
    moreover have "s1 = s \<or> s1 = s\<lparr>metadata_reads := metadata_reads s @ [audio_path],
        trace := trace s @ [ReadTags audio_path]\<rparr>"
      using extract_metadata_state [of e audio_path s] assms(3) by simp
    ultimately show ?thesis
      using False next_file by auto
  next
    case True
    have s1: "s1 = s\<lparr>metadata_reads := metadata_reads s @ [audio_path],
        trace := trace s @ [ReadTags audio_path]\<rparr>"
      using extract_metadata_found_state [OF assms(3)] True by simp
    obtain r s2 where fetch: "fetch_lyrics e (str_of artist) (str_of title) s1 = (r, s2)"
      by (cases "fetch_lyrics e (str_of artist) (str_of title) s1")
    obtain rs where rs: "rs \<noteq> []"
      and s2: "s2 = s1\<lparr>requests := requests s1 @ rs, trace := trace s1 @ map Request rs\<rparr>"
      using fetch_lyrics_state [of e "str_of artist" "str_of title" s1] fetch by auto
    show ?thesis
    proof (cases r)
      case (Inl ex)
      with process_fetch_raises [OF assms(1-3) _ _ fetch [unfolded Inl]] True assms(4)
      show ?thesis by simp
    next
      case (Inr lyrics)
      let ?ws = "if str_truthy lyrics
        then [WriteFile txt_path (str_of lyrics) (disk e txt_path (str_of lyrics))] else []"
      from process_fetched [OF assms(1-3) _ _ fetch [unfolded Inr]] True assms(4)
      have end_state: "sleeps s' = sleeps s2 @ [delay e] \<and> requests s' = requests s2
          \<and> trace s' = trace s2 @ ?ws @ [Sleep (delay e)]"
        by (auto simp add: time_sleep_def split: write_outcome.splits if_splits)
      have shape: "?ws = [] \<or> (\<exists>txt. ?ws = [WriteFile txt_path txt (disk e txt_path txt)])"
        by auto
      have "rs \<noteq> [] \<and> requests s' = requests s @ rs
          \<and> (?ws = [] \<or> (\<exists>txt. ?ws = [WriteFile txt_path txt (disk e txt_path txt)]))
          \<and> trace s' = trace s @ ReadTags audio_path # map Request rs @ ?ws @ [Sleep (delay e)]"
        using rs shape end_state unfolding s2 s1 by simp
      then have "\<exists>rs ws. rs \<noteq> [] \<and> requests s' = requests s @ rs
          \<and> (ws = [] \<or> (\<exists>txt. ws = [WriteFile txt_path txt (disk e txt_path txt)]))
          \<and> trace s' = trace s @ ReadTags audio_path # map Request rs @ ws @ [Sleep (delay e)]"
        by blast
      moreover have "sleeps s' = sleeps s @ [delay e]"
        using end_state unfolding s2 s1 by simp
      ultimately show ?thesis
        using True next_file by simp
    qed
  qed
qed

theorem pause_after_fetch_witness:
  "process_audio_file (scenario (lrclib_answers (PStr ''La la la'')) test_tags Written
        [[''song.flac'']]) [''song.flac''] state0
     = (Inr (), state0\<lparr>requests := [lrclib_request ''Test Artist'' ''Test Song''],
          metadata_reads := [[''song.flac'']], files := [[''song.txt''] \<mapsto> ''La la la''],
          sleeps := [2],
          trace := [ReadTags [''song.flac''], Request (lrclib_request ''Test Artist'' ''Test Song''),
            WriteFile [''song.txt''] ''La la la'' Written, Sleep 2],
          processed := 1, found := 1\<rparr>)
   \<and> sleeps (snd (process_audio_file (scenario (lrclib_answers (PStr ''La la la'')) test_tags
        Written [[''song.flac'']]) [''song.flac''] state0)) = sleeps state0 @ [2]"
proof -
  let ?e = "scenario (lrclib_answers (PStr ''La la la'')) test_tags Written [[''song.flac'']]"
  let ?s1 = "state0\<lparr>metadata_reads := [[''song.flac'']], trace := [ReadTags [''song.flac'']]\<rparr>"
  let ?s2 = "?s1\<lparr>requests := [lrclib_request ''Test Artist'' ''Test Song''],
      trace := [ReadTags [''song.flac''], Request (lrclib_request ''Test Artist'' ''Test Song'')]\<rparr>"
  let ?s' = "?s2\<lparr>files := [[''song.txt''] \<mapsto> ''La la la''], sleeps := [2],
      trace := [ReadTags [''song.flac''], Request (lrclib_request ''Test Artist'' ''Test Song''),
        WriteFile [''song.txt''] ''La la la'' Written, Sleep 2],
      processed := 1, found := 1\<rparr>"
  have none: "files state0 [''song.txt''] = None"
    by (simp add: state0_def)
  have meta: "extract_metadata ?e [''song.flac''] state0
      = ((Some ''Test Artist'', Some ''Test Song''), ?s1)"
    by (simp add: song_metadata state0_def)
  have a: "str_truthy (Some ''Test Artist'')" and t: "str_truthy (Some ''Test Song'')"
    by (simp_all add: str_truthy_def)
  have stripped: "strip ''La la la'' = ''La la la''"
    by (simp add: strip_def py_isspace_def)
  have fetch: "fetch_lyrics ?e (str_of (Some ''Test Artist'')) (str_of (Some ''Test Song'')) ?s1
      = (Inr (Some ''La la la''), ?s2)"
    using lrclib_answers_fetch [of "''La la la''"] by (simp add: stripped str_of_def state0_def)
  have run: "process_audio_file ?e [''song.flac''] state0 = (Inr (), ?s')"
    using process_fetched [OF song_txt none meta a t fetch]
    by (simp add: str_truthy_def str_of_def scenario_def time_sleep_def state0_def)
  have d: "delay ?e = 2"
    by (simp add: scenario_def)
  have "sleeps ?s' = sleeps state0 @ [2]"
    using pause_after_fetch [OF song_txt none meta run, of "[]"] a t d by simp
  then show ?thesis
    using run by (simp add: state0_def)
qed

section \<open>The chain returns the first present text, stripped\<close>

lemma fetch_lyrics_chain:
  "fetch_lyrics e artist title s =
     (let (v, s') = chain_spec (sources_in_order e artist title) s
      in (if truthy v then found_lyrics v else Inr None, s'))"
  by (simp add: fetch_lyrics_def sources_in_order_def Let_def split: prod.splits)

lemma found_lyrics_text: "found_lyrics (PStr txt) = Inr (Some (strip txt))"
  by (simp add: found_lyrics_def bnd_simps)

lemma chain_spec_truthy_or_none:
  "chain_spec srcs s = (v, s') \<Longrightarrow> truthy v \<or> v = PNone"
proof (induction srcs arbitrary: s)
  case Nil
  then show ?case by simp
next
  case (Cons src rest)
  obtain v1 s1 where first: "src s = (v1, s1)"
    by (cases "src s")
  show ?case
  proof (cases "truthy v1")
    case True
    with Cons.prems first show ?thesis by simp
  next
    case False
    with Cons.prems first have "chain_spec rest s1 = (v, s')" by simp
    then show ?thesis by (rule Cons.IH)
  qed
qed


text \<open>
  Claim C1 says that the chain returns the value of the first source that is present. It
  returns that value stripped: when LRCLIB answers with the text \<open>'' La la la ''\<close>, the
  chain returns \<open>''La la la''\<close>.
\<close>

theorem chain_returns_stripped_counterexample:
  "fst (fetch_lyrics_lrclib (scenario (lrclib_answers (PStr '' La la la '')) test_tags Written
          [[''song.flac'']]) ''Test Artist'' ''Test Song'' state0) = PStr '' La la la ''
   \<and> fst (fetch_lyrics (scenario (lrclib_answers (PStr '' La la la '')) test_tags Written
          [[''song.flac'']]) ''Test Artist'' ''Test Song'' state0) = Inr (Some ''La la la'')
   \<and> ''La la la'' \<noteq> '' La la la ''"
proof -
  have "strip '' La la la '' = ''La la la''"
    by (simp add: strip_def py_isspace_def)
  then show ?thesis
    by (simp add: lrclib_answers_source lrclib_answers_fetch)
qed


lemma chain_spec_sources:
  assumes "fetch_lyrics_lrclib e artist title s = (v1, s1)"
    and "fetch_lyrics_chartlyrics e artist title s1 = (v2, s2)"
    and "fetch_lyrics_ovh e (clean artist) (clean title) s2 = (v3, s3)"
  shows "chain_spec (sources_in_order e artist title) s =
     (if truthy v1 then (v1, s1) else if truthy v2 then (v2, s2)
      else if truthy v3 then (v3, s3) else (PNone, s3))"
  using assms by (simp add: sources_in_order_def)

lemma source_absent_iff:
  "fetch_lyrics_lrclib e artist title s = (v, s') \<Longrightarrow> (\<not> truthy v) = (v = PNone)"
  "fetch_lyrics_chartlyrics e artist title s = (v, s') \<Longrightarrow> (\<not> truthy v) = (v = PNone)"
  "fetch_lyrics_ovh e artist title s = (v, s') \<Longrightarrow> (\<not> truthy v) = (v = PNone)"
  by (auto simp add: fetch_lyrics_lrclib_def fetch_lyrics_chartlyrics_def fetch_lyrics_ovh_def
      session_get_def lrclib_body_def chartlyrics_body_def ovh_body_def bnd_def except_none_def
      split: sum.splits option.splits if_splits)

text \<open>
  Claim C1, amended. \<^verbatim>\<open>fetch_lyrics\<close> tries LRCLIB, ChartLyrics and lyrics.ovh in
  that order (the last with the cleaned artist and title), as the chain of the
  specification does over that list: its result and final state are those of the first
  source whose value is present, and of the last source when none is. When that first
  present value is a text that is not blank, \<^verbatim>\<open>fetch_lyrics\<close> returns the text with
  leading and trailing whitespace stripped, having consulted no later source; its result
  is absent, as its caller tests it, exactly when every source returned absence, and
  then it is None.
\<close>

theorem first_present_source_stripped:
  assumes "fetch_lyrics_lrclib e artist title s = (v1, s1)"
    and "fetch_lyrics_chartlyrics e artist title s1 = (v2, s2)"
    and "fetch_lyrics_ovh e (clean artist) (clean title) s2 = (v3, s3)"
    and "chain_spec (sources_in_order e artist title) s = (v, s')"
    and "v = PNone \<or> (v = PStr txt \<and> strip txt \<noteq> [])"
  shows "fetch_lyrics e artist title s = (if v = PNone then Inr None else Inr (Some (strip txt)), s')
    \<and> (v, s') = (if truthy v1 then (v1, s1) else if truthy v2 then (v2, s2)
                 else if truthy v3 then (v3, s3) else (PNone, s3))
    \<and> (\<exists>r. fst (fetch_lyrics e artist title s) = Inr r \<and> str_truthy r = (v \<noteq> PNone))
    \<and> (v = PNone) = (v1 = PNone \<and> v2 = PNone \<and> v3 = PNone)"
proof -
  have result: "fetch_lyrics e artist title s =
      (if v = PNone then Inr None else Inr (Some (strip txt)), s')"
    using assms(4,5) chain_spec_truthy_or_none [OF assms(4)]
    by (auto simp add: fetch_lyrics_chain found_lyrics_text)
  have first: "(v, s') = (if truthy v1 then (v1, s1) else if truthy v2 then (v2, s2)
      else if truthy v3 then (v3, s3) else (PNone, s3))"
    using chain_spec_sources [OF assms(1-3)] assms(4) by simp
  have caller: "\<exists>r. fst (fetch_lyrics e artist title s) = Inr r \<and> str_truthy r = (v \<noteq> PNone)"
    using assms(5) by (auto simp add: result str_truthy_def)
  have absent: "(v = PNone) = (v1 = PNone \<and> v2 = PNone \<and> v3 = PNone)"
    using first source_absent_iff(1) [OF assms(1)] source_absent_iff(2) [OF assms(2)]
      source_absent_iff(3) [OF assms(3)]
    by (auto split: if_splits)
  show ?thesis
    using result first caller absent by blast
qed

theorem first_present_source_stripped_witness:
  "fetch_lyrics (scenario (lrclib_answers (PStr '' La la la '')) test_tags Written [[''song.flac'']])
      ''Test Artist'' ''Test Song'' state0
     = (Inr (Some (strip '' La la la '')),
        state0\<lparr>requests := [lrclib_request ''Test Artist'' ''Test Song''],
          trace := [Request (lrclib_request ''Test Artist'' ''Test Song'')]\<rparr>)
   \<and> fetch_lyrics (scenario no_lyrics test_tags Written [[''song.flac'']])
      ''Test Artist'' ''Test Song'' state0
     = (Inr None,
        state0\<lparr>requests := [lrclib_request ''Test Artist'' ''Test Song'',
          chartlyrics_request ''Test Artist'' ''Test Song'',
          ovh_request ''Test Artist'' ''Test Song''],
          trace := [Request (lrclib_request ''Test Artist'' ''Test Song''),
            Request (chartlyrics_request ''Test Artist'' ''Test Song''),
            Request (ovh_request ''Test Artist'' ''Test Song'')]\<rparr>)"
proof -
  let ?e = "scenario (lrclib_answers (PStr '' La la la '')) test_tags Written [[''song.flac'']]"
  let ?n = "scenario no_lyrics test_tags Written [[''song.flac'']]"
  let ?r1 = "lrclib_request ''Test Artist'' ''Test Song''"
  let ?r2 = "chartlyrics_request ''Test Artist'' ''Test Song''"
  let ?r3 = "ovh_request ''Test Artist'' ''Test Song''"
  let ?s1 = "state0\<lparr>requests := [?r1], trace := [Request ?r1]\<rparr>"
  let ?s2 = "state0\<lparr>requests := [?r1, ?r2], trace := [Request ?r1, Request ?r2]\<rparr>"
  let ?s3 = "state0\<lparr>requests := [?r1, ?r2, ?r3],
      trace := [Request ?r1, Request ?r2, Request ?r3]\<rparr>"
  have stripped: "strip '' La la la '' = ''La la la''"
    by (simp add: strip_def py_isspace_def)
  have a1: "fetch_lyrics_lrclib ?e ''Test Artist'' ''Test Song'' state0 = (PStr '' La la la '', ?s1)"
    by (simp add: lrclib_answers_source state0_def)
  have a2: "fetch_lyrics_chartlyrics ?e ''Test Artist'' ''Test Song'' ?s1 = (PNone, ?s2)"
    by (simp add: lrclib_answers_others state0_def)
  have a3: "fetch_lyrics_ovh ?e (clean ''Test Artist'') (clean ''Test Song'') ?s2 = (PNone, ?s3)"
    by (simp add: lrclib_answers_others clean_test_tags state0_def)
  have ac: "chain_spec (sources_in_order ?e ''Test Artist'' ''Test Song'') state0
      = (PStr '' La la la '', ?s1)"
    by (simp add: chain_spec_sources [OF a1 a2 a3])
  have av: "PStr '' La la la '' = PNone
      \<or> (PStr '' La la la '' = PStr '' La la la '' \<and> strip '' La la la '' \<noteq> [])"
    by (simp add: stripped)
  have b1: "fetch_lyrics_lrclib ?n ''Test Artist'' ''Test Song'' state0 = (PNone, ?s1)"
    by (simp add: no_lyrics_sources state0_def)
  have b2: "fetch_lyrics_chartlyrics ?n ''Test Artist'' ''Test Song'' ?s1 = (PNone, ?s2)"
    by (simp add: no_lyrics_sources state0_def)
  have b3: "fetch_lyrics_ovh ?n (clean ''Test Artist'') (clean ''Test Song'') ?s2 = (PNone, ?s3)"
    by (simp add: no_lyrics_sources clean_test_tags state0_def)
  have bc: "chain_spec (sources_in_order ?n ''Test Artist'' ''Test Song'') state0 = (PNone, ?s3)"
    by (simp add: chain_spec_sources [OF b1 b2 b3])
  have bv: "PNone = PNone \<or> (PNone = PStr [] \<and> strip [] \<noteq> [])"
    by simp
  show ?thesis
    using first_present_source_stripped [OF a1 a2 a3 ac av]
      first_present_source_stripped [OF b1 b2 b3 bc bv]
    by simp
qed

section \<open>The sources the chain tries\<close>

text \<open>
  Claim C3: the sources tried, and their order, are those of the configuration constant.
  The constant \<open>api_sources\<close> names LRCLIB and lyrics.ovh as the priority order, and
  \<^verbatim>\<open>fetch_lyrics\<close> does not read it: when no source has lyrics, it sends a request
  to ChartLyrics between the two.
\<close>

theorem chain_tries_chartlyrics:
  "map source_of (requests (snd (fetch_lyrics (scenario no_lyrics test_tags Written [[''song.flac'']])
      ''Test Artist'' ''Test Song'' state0))) = [''lrclib'', ''chartlyrics'', ''lyrics.ovh'']
   \<and> api_sources = [''lrclib'', ''lyrics.ovh'']"
proof -
  have "requests (snd (fetch_lyrics (scenario no_lyrics test_tags Written [[''song.flac'']])
      ''Test Artist'' ''Test Song'' state0))
    = [lrclib_request ''Test Artist'' ''Test Song'',
       chartlyrics_request ''Test Artist'' ''Test Song'',
       ovh_request ''Test Artist'' ''Test Song'']"
    by (simp add: no_lyrics_fetch clean_test_tags state0_def)
  then show ?thesis
    by (simp add: source_of_def lrclib_request_def chartlyrics_request_def ovh_request_def
        api_sources_def)
qed

section \<open>What a source returns\<close>

text \<open>
  Claim C7: a source never raises and maps every failure of the transport, a malformed
  response among them, to absence. A source is total, but a response whose lyrics field
  holds a number is not mapped to absence: LRCLIB answering
  \<^verbatim>\<open>[{"plainLyrics": 5}]\<close> makes the source return 5, on which
  \<^verbatim>\<open>fetch_lyrics\<close> raises.
\<close>

theorem lrclib_returns_number:
  "fst (fetch_lyrics_lrclib (scenario (lrclib_answers (PInt 5)) test_tags Written [[''song.flac'']])
      ''Test Artist'' ''Test Song'' state0) = PInt 5
   \<and> fst (fetch_lyrics (scenario (lrclib_answers (PInt 5)) test_tags Written [[''song.flac'']])
      ''Test Artist'' ''Test Song'' state0) = Inl AttributeError"
  by (simp add: fetch_lyrics_def lrclib_answers_source found_lyrics_def bnd_simps)


text \<open>The failures that the sources do map to absence.\<close>

lemma lrclib_absent_on_failure:
  "http e (requests s) (lrclib_request artist title) = Inl ex
     \<Longrightarrow> fst (fetch_lyrics_lrclib e artist title s) = PNone"
  "http e (requests s) (lrclib_request artist title) = Inr resp \<Longrightarrow> status_code resp \<noteq> 200
     \<Longrightarrow> fst (fetch_lyrics_lrclib e artist title s) = PNone"
  "http e (requests s) (lrclib_request artist title) = Inr resp \<Longrightarrow> json resp = Inl ex
     \<Longrightarrow> fst (fetch_lyrics_lrclib e artist title s) = PNone"
  "http e (requests s) (lrclib_request artist title) = Inr resp \<Longrightarrow> json resp = Inr data
     \<Longrightarrow> \<not> truthy data \<Longrightarrow> fst (fetch_lyrics_lrclib e artist title s) = PNone"
  by (simp_all add: fetch_lyrics_lrclib_def session_get_def lrclib_body_def bnd_simps
      except_none_def)

lemma ovh_absent_on_failure:
  "http e (requests s) (ovh_request artist title) = Inl ex
     \<Longrightarrow> fst (fetch_lyrics_ovh e artist title s) = PNone"
  "http e (requests s) (ovh_request artist title) = Inr resp \<Longrightarrow> status_code resp \<noteq> 200
     \<Longrightarrow> fst (fetch_lyrics_ovh e artist title s) = PNone"
  "http e (requests s) (ovh_request artist title) = Inr resp \<Longrightarrow> json resp = Inl ex
     \<Longrightarrow> fst (fetch_lyrics_ovh e artist title s) = PNone"
  by (simp_all add: fetch_lyrics_ovh_def session_get_def ovh_body_def bnd_simps
      except_none_def)

lemma chartlyrics_text_or_none:
  "fst (fetch_lyrics_chartlyrics e artist title s) = PNone
    \<or> (\<exists>txt. txt \<noteq> [] \<and> fst (fetch_lyrics_chartlyrics e artist title s) = PStr txt)"
  by (simp add: fetch_lyrics_chartlyrics_def session_get_def chartlyrics_body_def bnd_def
      except_none_def split: sum.splits option.splits)

lemma source_truthy_or_none:
  "fst (fetch_lyrics_lrclib e artist title s) = PNone \<or> truthy (fst (fetch_lyrics_lrclib e artist title s))"
  "fst (fetch_lyrics_ovh e artist title s) = PNone \<or> truthy (fst (fetch_lyrics_ovh e artist title s))"
  by (auto simp add: fetch_lyrics_lrclib_def fetch_lyrics_ovh_def session_get_def lrclib_body_def
      ovh_body_def bnd_def except_none_def split: sum.splits)

section \<open>The text file that is written\<close>

text \<open>The sibling text file of \<^verbatim>\<open>stem.ext\<close> is \<^verbatim>\<open>stem.txt\<close>, in the same directory.\<close>

lemma rfind_dot_stem:
  assumes "CHR ''.'' \<notin> set ext"
  shows "rfind_dot (stem @ CHR ''.'' # ext) = Some (length stem)"
proof -
  have "takeWhile (\<lambda>c. c \<noteq> CHR ''.'') (rev ext @ CHR ''.'' # rev stem) = rev ext"
    using assms by (subst takeWhile_append2) auto
  then show ?thesis
    by (simp add: rfind_dot_def)
qed

lemma with_suffix_stem:
  assumes "stem \<noteq> []" and "ext \<noteq> []" and "CHR ''.'' \<notin> set ext"
  shows "with_suffix (dir @ [stem @ CHR ''.'' # ext]) sfx = Inr (dir @ [stem @ sfx])"
proof -
  have "0 < length stem" and "Suc (length stem) < length stem + Suc (length ext)"
    using assms(1,2) by simp_all
  then have "path_suffix (dir @ [stem @ CHR ''.'' # ext]) = CHR ''.'' # ext"
    by (simp add: path_suffix_def path_name_def rfind_dot_stem [OF assms(3)])
  then show ?thesis
    by (simp add: with_suffix_def path_name_def)
qed


text \<open>
  Claim C5 says that the text file holds exactly the text the source returned. It holds
  the text stripped: when LRCLIB answers \<^verbatim>\<open>song.flac\<close> with \<open>''La la la''\<close>
  followed by a newline, \<^verbatim>\<open>song.txt\<close> holds \<open>''La la la''\<close> without it.
\<close>

theorem sidecar_differs_from_source_text_counterexample:
  "fst (fetch_lyrics_lrclib (scenario (lrclib_answers (PStr ''La la la\<newline>'')) test_tags
          Written [[''song.flac'']]) ''Test Artist'' ''Test Song''
          (state0\<lparr>metadata_reads := [[''song.flac'']], trace := [ReadTags [''song.flac'']]\<rparr>)) = PStr ''La la la\<newline>''
   \<and> files (snd (process_audio_file (scenario (lrclib_answers (PStr ''La la la\<newline>''))
          test_tags Written [[''song.flac'']]) [''song.flac''] state0)) [''song.txt'']
       = Some ''La la la''
   \<and> ''La la la'' \<noteq> ''La la la\<newline>''"
proof -
  let ?e = "scenario (lrclib_answers (PStr ''La la la\<newline>'')) test_tags Written
    [[''song.flac'']]"
  let ?s1 = "state0\<lparr>metadata_reads := [[''song.flac'']], trace := [ReadTags [''song.flac'']]\<rparr>"
  let ?s2 = "?s1\<lparr>requests := [lrclib_request ''Test Artist'' ''Test Song''],
      trace := [ReadTags [''song.flac''], Request (lrclib_request ''Test Artist'' ''Test Song'')]\<rparr>"
  have none: "files state0 [''song.txt''] = None"
    by (simp add: state0_def)
  have meta: "extract_metadata ?e [''song.flac''] state0
      = ((Some ''Test Artist'', Some ''Test Song''), ?s1)"
    by (simp add: song_metadata state0_def)
  have a: "str_truthy (Some ''Test Artist'')" and t: "str_truthy (Some ''Test Song'')"
    by (simp_all add: str_truthy_def)
  have stripped: "strip ''La la la\<newline>'' = ''La la la''"
    by (simp add: strip_def py_isspace_def)
  have fetch: "fetch_lyrics ?e (str_of (Some ''Test Artist'')) (str_of (Some ''Test Song'')) ?s1
      = (Inr (Some ''La la la''), ?s2)"
    using lrclib_answers_fetch [of "''La la la\<newline>''"]
    by (simp add: stripped str_of_def state0_def)
  have run: "files (snd (process_audio_file ?e [''song.flac''] state0)) [''song.txt'']
      = Some ''La la la''"
    using process_fetched [OF song_txt none meta a t fetch]
    by (simp add: str_truthy_def str_of_def scenario_def time_sleep_def state0_def)
  show ?thesis
    using run by (simp add: lrclib_answers_source)
qed


text \<open>
  Claim C5, amended. For an audio file \<^verbatim>\<open>stem.ext\<close> with artist and title, when the
  first present value of the chain is the text \<open>txt\<close>, its stripped form is not empty
  and the write succeeds, the file written is \<^verbatim>\<open>stem.txt\<close> in the same directory,
  it holds exactly \<open>strip txt\<close> and nothing else, no other file changes, and the found
  counter is one higher. In particular \<open>''La la la''\<close> from the first source gives a
  \<^verbatim>\<open>song.txt\<close> that holds \<open>''La la la''\<close>.
\<close>

theorem sidecar_holds_stripped_lyrics:
  assumes "audio_path = dir @ [stem @ CHR ''.'' # ext]"
    and "stem \<noteq> []" and "ext \<noteq> []" and "CHR ''.'' \<notin> set ext"
    and "files s (dir @ [stem @ ''.txt'']) = None"
    and "extract_metadata e audio_path s = ((Some artist, Some title), s1)"
    and "artist \<noteq> []" and "title \<noteq> []"
    and "chain_spec (sources_in_order e artist title) s1 = (PStr txt, s2)"
    and "strip txt \<noteq> []"
    and "disk e (dir @ [stem @ ''.txt'']) (strip txt) = Written"
  shows "fst (process_audio_file e audio_path s) = Inr ()
    \<and> files (snd (process_audio_file e audio_path s)) = (files s)(dir @ [stem @ ''.txt''] \<mapsto> strip txt)
    \<and> found (snd (process_audio_file e audio_path s)) = found s + 1"
proof -
  let ?t = "dir @ [stem @ ''.txt'']"
  have txt_path: "with_suffix audio_path ''.txt'' = Inr ?t"
    unfolding assms(1) using assms(2-4) by (rule with_suffix_stem)
  have a: "str_truthy (Some artist)" and t: "str_truthy (Some title)"
    using assms(7,8) by (simp_all add: str_truthy_def)
  have "truthy (PStr txt)"
    using chain_spec_truthy_or_none [OF assms(9)] by simp
  then have fetch: "fetch_lyrics e (str_of (Some artist)) (str_of (Some title)) s1
      = (Inr (Some (strip txt)), s2)"
    using assms(9) by (simp add: fetch_lyrics_chain found_lyrics_text str_of_def)
  have run: "process_audio_file e audio_path s =
      (Inr (), time_sleep (delay e)
         (s2\<lparr>files := (files s2)(?t \<mapsto> strip txt),
              trace := trace s2 @ [WriteFile ?t (strip txt) Written],
              found := found s2 + 1, processed := processed s2 + 1\<rparr>))"
    using process_fetched [OF txt_path assms(5,6) a t fetch] assms(10,11)
    by (simp add: str_truthy_def str_of_def)
  show ?thesis
    using fetch_lyrics_fields [OF fetch] extract_metadata_fields [OF assms(6)]
    by (simp add: run time_sleep_def)
qed

theorem sidecar_holds_stripped_lyrics_witness:
  "files (snd (process_audio_file (scenario (lrclib_answers (PStr ''La la la'')) test_tags Written
       [[''song.flac'']]) [''song.flac''] state0)) = [[''song.txt''] \<mapsto> ''La la la'']
   \<and> found (snd (process_audio_file (scenario (lrclib_answers (PStr ''La la la'')) test_tags Written
       [[''song.flac'']]) [''song.flac''] state0)) = 1"
proof -
  let ?e = "scenario (lrclib_answers (PStr ''La la la'')) test_tags Written [[''song.flac'']]"
  let ?s1 = "state0\<lparr>metadata_reads := [[''song.flac'']], trace := [ReadTags [''song.flac'']]\<rparr>"
  let ?s2 = "?s1\<lparr>requests := [lrclib_request ''Test Artist'' ''Test Song''],
      trace := [ReadTags [''song.flac''], Request (lrclib_request ''Test Artist'' ''Test Song'')]\<rparr>"
  have p: "[''song.flac''] = [] @ [''song'' @ CHR ''.'' # ''flac'']" by simp
  have stem: "''song'' \<noteq> []" and ext: "''flac'' \<noteq> []" and dot: "CHR ''.'' \<notin> set ''flac''"
    by simp_all
  have none: "files state0 ([] @ [''song'' @ ''.txt'']) = None"
    by (simp add: state0_def)
  have meta: "extract_metadata ?e [''song.flac''] state0
      = ((Some ''Test Artist'', Some ''Test Song''), ?s1)"
    by (simp add: song_metadata state0_def)
  have a: "''Test Artist'' \<noteq> []" and t: "''Test Song'' \<noteq> []"
    by simp_all
  have chain: "chain_spec (sources_in_order ?e ''Test Artist'' ''Test Song'') ?s1
      = (PStr ''La la la'', ?s2)"
    by (simp add: sources_in_order_def lrclib_answers_source state0_def)
  have stripped: "strip ''La la la'' = ''La la la''"
    by (simp add: strip_def py_isspace_def)
  have ne: "strip ''La la la'' \<noteq> []"
    by (simp add: stripped)
  have written: "disk ?e ([] @ [''song'' @ ''.txt'']) (strip ''La la la'') = Written"
    by (simp add: scenario_def)
  show ?thesis
    using sidecar_holds_stripped_lyrics [OF p stem ext dot none meta a t chain ne written]
    by (simp add: stripped state0_def)
qed

section \<open>Existing text files are kept\<close>

text \<open>
  Processing a file, and so a whole run, leaves every text file that exists with the
  content it has: a write goes only to a path where no file was.
\<close>

lemma process_audio_file_keeps:
  assumes "files s t = Some old"
  shows "files (snd (process_audio_file e p s)) t = Some old"
proof (cases "with_suffix p ''.txt''")
  case (Inl ex)
  then show ?thesis
    using assms by (simp add: process_audio_file_def)
next
  case (Inr txt_path)
  show ?thesis
  proof (cases "files s txt_path")
    case (Some other)
    with Inr assms show ?thesis
      by (simp add: process_audio_file_def)
  next
    case None
    with assms have differ: "t \<noteq> txt_path" by auto
    obtain artist title s1 where meta: "extract_metadata e p s = ((artist, title), s1)"
      by (cases "extract_metadata e p s") auto
    note m = extract_metadata_fields [OF meta]
    show ?thesis
    proof (cases "str_truthy artist \<and> str_truthy title")
      case False
      then have "\<not> str_truthy artist \<or> \<not> str_truthy title" by simp
      from process_missing_metadata [OF Inr None meta this] show ?thesis
        using assms m by simp
    next
      case True
      obtain r s2 where fetch: "fetch_lyrics e (str_of artist) (str_of title) s1 = (r, s2)"
        by (cases "fetch_lyrics e (str_of artist) (str_of title) s1")
      note f = fetch_lyrics_fields [OF fetch]
      show ?thesis
      proof (cases r)
        case (Inl ex)
        from process_fetch_raises [OF Inr None meta _ _ fetch [unfolded Inl]] True
        show ?thesis using assms m f by simp
      next
        case (Inr lyrics)
        from process_fetched [OF \<open>with_suffix p ''.txt'' = Inr txt_path\<close> None meta _ _
            fetch [unfolded Inr]] True
        show ?thesis
          using assms m f differ
          by (auto simp add: time_sleep_def split: write_outcome.splits)
      qed
    qed
  qed
qed

lemma process_files_keeps:
  "files s t = Some old \<Longrightarrow> files (snd (process_files e ps s)) t = Some old"
proof (induction ps arbitrary: s)
  case Nil
  then show ?case by simp
next
  case (Cons p ps)
  obtain r s' where step: "process_audio_file e p s = (r, s')"
    by (cases "process_audio_file e p s")
  have kept: "files s' t = Some old"
    using process_audio_file_keeps [OF Cons.prems, of e p] step by simp
  show ?case
  proof (cases r)
    case (Inl ex)
    with step kept show ?thesis by simp
  next
    case (Inr u)
    with step Cons.IH [OF kept] show ?thesis by simp
  qed
qed

section \<open>Running the batch twice\<close>

lemma has_sidecar_skip:
  assumes "has_sidecar s p"
  shows "process_audio_file e p s = (Inr (), s)"
proof -
  obtain t old where "with_suffix p ''.txt'' = Inr t" and "files s t = Some old"
    using assms by (auto simp add: has_sidecar_def split: sum.splits)
  then show ?thesis
    by (simp add: process_audio_file_def)
qed

lemma has_sidecar_kept_step:
  assumes "has_sidecar s q"
  shows "has_sidecar (snd (process_audio_file e p s)) q"
proof -
  obtain t old where "with_suffix q ''.txt'' = Inr t" and "files s t = Some old"
    using assms by (auto simp add: has_sidecar_def split: sum.splits)
  then show ?thesis
    using process_audio_file_keeps [of s t old e p] by (simp add: has_sidecar_def)
qed

lemma has_sidecar_kept:
  assumes "has_sidecar s q"
  shows "has_sidecar (snd (process_files e ps s)) q"
proof -
  obtain t old where "with_suffix q ''.txt'' = Inr t" and "files s t = Some old"
    using assms by (auto simp add: has_sidecar_def split: sum.splits)
  then show ?thesis
    using process_files_keeps [of s t old e ps] by (simp add: has_sidecar_def)
qed

lemma has_sidecar_new_parser: "has_sidecar (new_parser s) p = has_sidecar s p"
  by (simp add: has_sidecar_def new_parser_def split: sum.splits)

text \<open>A file counted as found has its sibling text file.\<close>

lemma found_gives_sidecar:
  assumes "process_audio_file e p s = (Inr (), s')" and "found s' = found s + 1"
  shows "has_sidecar s' p"
proof (cases "with_suffix p ''.txt''")
  case (Inl ex)
  then show ?thesis
    using assms(1) by (simp add: process_audio_file_def)
next
  case (Inr t)
  show ?thesis
  proof (cases "files s t")
    case (Some old)
    with Inr assms show ?thesis
      by (simp add: process_audio_file_def)
  next
    case None
    obtain artist title s1 where meta: "extract_metadata e p s = ((artist, title), s1)"
      by (cases "extract_metadata e p s") auto
    note m = extract_metadata_fields [OF meta]
    show ?thesis
    proof (cases "str_truthy artist \<and> str_truthy title")
      case False
      then have "\<not> str_truthy artist \<or> \<not> str_truthy title" by simp
      from process_missing_metadata [OF Inr None meta this] assms m show ?thesis
        by simp
    next
      case True
      obtain r s2 where fetch: "fetch_lyrics e (str_of artist) (str_of title) s1 = (r, s2)"
        by (cases "fetch_lyrics e (str_of artist) (str_of title) s1")
      note f = fetch_lyrics_fields [OF fetch]
      show ?thesis
      proof (cases r)
        case (Inl ex)
        from process_fetch_raises [OF Inr None meta _ _ fetch [unfolded Inl]] True assms(1)
        show ?thesis by simp
      next
        case (Inr lyrics)
        from process_fetched [OF \<open>with_suffix p ''.txt'' = Inr t\<close> None meta _ _
            fetch [unfolded Inr]] True assms m f
        show ?thesis
          by (auto simp add: time_sleep_def has_sidecar_def \<open>with_suffix p ''.txt'' = Inr t\<close>
              split: write_outcome.splits if_splits)
      qed
    qed
  qed
qed

lemma process_files_append:
  "process_files e pre s = (Inr (), sa) \<Longrightarrow> process_files e (pre @ rest) s = process_files e rest sa"
proof (induction pre arbitrary: s)
  case Nil
  then show ?case by simp
next
  case (Cons p pre)
  obtain r s' where step: "process_audio_file e p s = (r, s')"
    by (cases "process_audio_file e p s")
  show ?case
  proof (cases r)
    case (Inl ex)
    with step Cons.prems show ?thesis by simp
  next
    case (Inr u)
    with step Cons.prems have "process_files e pre s' = (Inr (), sa)" by simp
    from Cons.IH [OF this] step Inr show ?thesis by simp
  qed
qed

text \<open>A run is the run over the files that have no sibling text file when it starts.\<close>

lemma process_files_filter:
  assumes "\<And>q. Q q \<Longrightarrow> has_sidecar s q"
  shows "process_files e ps s = process_files e (filter (\<lambda>q. \<not> Q q) ps) s"
  using assms
proof (induction ps arbitrary: s)
  case Nil
  show ?case by simp
next
  case (Cons p ps)
  show ?case
  proof (cases "Q p")
    case True
    then have "process_audio_file e p s = (Inr (), s)"
      using Cons.prems by (intro has_sidecar_skip) simp
    then show ?thesis
      using True Cons.IH [OF Cons.prems] by simp
  next
    case False
    obtain r s' where step: "process_audio_file e p s = (r, s')"
      by (cases "process_audio_file e p s")
    have later: "has_sidecar s' q" if "Q q" for q
      using has_sidecar_kept_step [OF Cons.prems [OF that], of e p] step by simp
    show ?thesis
    proof (cases r)
      case (Inl ex)
      with step False show ?thesis by simp
    next
      case (Inr u)
      with step False Cons.IH [of s', OF later] show ?thesis by simp
    qed
  qed
qed

lemma song_saved:
  "process_audio_file (scenario (lrclib_answers (PStr ''La la la'')) test_tags Written
      [[''song.flac'']]) [''song.flac''] state0
   = (Inr (), state0\<lparr>requests := [lrclib_request ''Test Artist'' ''Test Song''],
        metadata_reads := [[''song.flac'']], files := [[''song.txt''] \<mapsto> ''La la la''],
        sleeps := [2],
        trace := [ReadTags [''song.flac''], Request (lrclib_request ''Test Artist'' ''Test Song''),
          WriteFile [''song.txt''] ''La la la'' Written, Sleep 2],
        processed := 1, found := 1\<rparr>)"
proof -
  let ?e = "scenario (lrclib_answers (PStr ''La la la'')) test_tags Written [[''song.flac'']]"
  let ?s1 = "state0\<lparr>metadata_reads := [[''song.flac'']], trace := [ReadTags [''song.flac'']]\<rparr>"
  let ?s2 = "?s1\<lparr>requests := [lrclib_request ''Test Artist'' ''Test Song''],
      trace := [ReadTags [''song.flac''], Request (lrclib_request ''Test Artist'' ''Test Song'')]\<rparr>"
  have none: "files state0 [''song.txt''] = None"
    by (simp add: state0_def)
  have meta: "extract_metadata ?e [''song.flac''] state0
      = ((Some ''Test Artist'', Some ''Test Song''), ?s1)"
    by (simp add: song_metadata state0_def)
  have a: "str_truthy (Some ''Test Artist'')" and t: "str_truthy (Some ''Test Song'')"
    by (simp_all add: str_truthy_def)
  have stripped: "strip ''La la la'' = ''La la la''"
    by (simp add: strip_def py_isspace_def)
  have fetch: "fetch_lyrics ?e (str_of (Some ''Test Artist'')) (str_of (Some ''Test Song'')) ?s1
      = (Inr (Some ''La la la''), ?s2)"
    using lrclib_answers_fetch [of "''La la la''"] by (simp add: stripped str_of_def state0_def)
  show ?thesis
    using process_fetched [OF song_txt none meta a t fetch]
    by (simp add: str_truthy_def str_of_def scenario_def time_sleep_def state0_def)
qed

lemma song_first_run:
  "process_directory (scenario (lrclib_answers (PStr ''La la la'')) test_tags Written
      [[''song.flac'']]) state0
   = (Inr (), state0\<lparr>requests := [lrclib_request ''Test Artist'' ''Test Song''],
        metadata_reads := [[''song.flac'']], files := [[''song.txt''] \<mapsto> ''La la la''],
        sleeps := [2],
        trace := [ReadTags [''song.flac''], Request (lrclib_request ''Test Artist'' ''Test Song''),
          WriteFile [''song.txt''] ''La la la'' Written, Sleep 2],
        processed := 1, found := 1\<rparr>)"
proof -
  have "directory_exists (scenario (lrclib_answers (PStr ''La la la'')) test_tags Written
      [[''song.flac'']])"
    by (simp add: scenario_def)
  then show ?thesis
    by (simp add: process_directory_def song_audio_files song_saved)
qed

text \<open>
  Claim C9 says that on a second run every audio file takes the skip path. A file the
  first run left without a text file does not: \<^verbatim>\<open>untagged.mp3\<close> has its tags read
  again by the second run, started with fresh counters on the state the first run left,
  and is counted as an error again.
\<close>

theorem second_run_repeats_untagged_counterexample:
  "errors (snd (process_directory (scenario no_lyrics None Written [[''untagged.mp3'']])
      (new_parser (snd (process_directory (scenario no_lyrics None Written [[''untagged.mp3'']])
        state0))))) = 1
   \<and> metadata_reads (snd (process_directory (scenario no_lyrics None Written [[''untagged.mp3'']])
      (new_parser (snd (process_directory (scenario no_lyrics None Written [[''untagged.mp3'']])
        state0))))) = [[''untagged.mp3''], [''untagged.mp3'']]"
proof -
  let ?e = "scenario no_lyrics None Written [[''untagged.mp3'']]"
  let ?s1 = "state0\<lparr>metadata_reads := [[''untagged.mp3'']], trace := [ReadTags [''untagged.mp3'']], errors := 1\<rparr>"
  have dir: "directory_exists ?e"
    by (simp add: scenario_def)
  have run: "process_directory ?e s = process_files ?e [[''untagged.mp3'']] s" for s
    using dir by (simp add: process_directory_def untagged_audio_files)
  have none0: "files state0 [''untagged.txt''] = None"
    by (simp add: state0_def)
  have first: "process_directory ?e state0 = (Inr (), ?s1)"
    by (simp add: run untagged_run [OF none0]) (simp add: state0_def)
  have none1: "files (new_parser ?s1) [''untagged.txt''] = None"
    by (simp add: new_parser_def state0_def)
  have second: "process_directory ?e (new_parser ?s1) =
      (Inr (), (new_parser ?s1)\<lparr>metadata_reads := [[''untagged.mp3''], [''untagged.mp3'']],
        trace := [ReadTags [''untagged.mp3''], ReadTags [''untagged.mp3'']], errors := 1\<rparr>)"
    by (simp only: run process_files.simps untagged_run [OF none1])
      (simp add: new_parser_def state0_def)
  show ?thesis
    by (simp only: first snd_conv second) (simp add: new_parser_def)
qed



text \<open>
  Claim C9, amended. Let the first run, over the audio files in their order, reach a file,
  save its lyrics (it is counted as found) and go on to its end. Then that file has its
  sibling text file after the run, and the second run, started with fresh counters on the
  state the first run left, takes the skip path when it reaches the file: nothing changes.
  More generally the second run does exactly what a run over the audio files that the
  first run left without a sibling text file does: every other file is skipped. When no
  file is left without one, the second run changes nothing, and its found and error
  counts are zero.
\<close>

theorem second_run_skips_saved_files:
  assumes "directory_exists e"
    and "audio_files e = pre @ p # post"
    and "process_files e pre s0 = (Inr (), sa)"
    and "process_audio_file e p sa = (Inr (), sb)"
    and "found sb = found sa + 1"
    and "process_files e post sb = (r1, s1)"
  shows "process_directory e s0 = (r1, s1)
    \<and> has_sidecar s1 p
    \<and> (\<forall>sc. process_files e pre (new_parser s1) = (Inr (), sc)
          \<longrightarrow> process_audio_file e p sc = (Inr (), sc))
    \<and> process_directory e (new_parser s1) =
        process_files e (filter (\<lambda>q. \<not> has_sidecar s1 q) (audio_files e)) (new_parser s1)
    \<and> (list_all (has_sidecar s1) (audio_files e)
          \<longrightarrow> process_directory e (new_parser s1) = (Inr (), new_parser s1)
              \<and> found (new_parser s1) = 0 \<and> errors (new_parser s1) = 0)"
proof -
  have nonempty: "audio_files e \<noteq> []"
    using assms(2) by simp
  have "process_files e (pre @ p # post) s0 = process_files e (p # post) sa"
    using assms(3) by (rule process_files_append)
  then have first: "process_directory e s0 = (r1, s1)"
    using assms(1,2,4,6) by (simp add: process_directory_def)
  have "has_sidecar sb p"
    using assms(4,5) by (rule found_gives_sidecar)
  then have "has_sidecar (snd (process_files e post sb)) p"
    by (rule has_sidecar_kept)
  then have saved: "has_sidecar s1 p"
    using assms(6) by simp
  have skipped: "process_audio_file e p sc = (Inr (), sc)"
    if "process_files e pre (new_parser s1) = (Inr (), sc)" for sc
  proof -
    have "has_sidecar (new_parser s1) p"
      using saved by (simp add: has_sidecar_new_parser)
    then have "has_sidecar (snd (process_files e pre (new_parser s1))) p"
      by (rule has_sidecar_kept)
    then have "has_sidecar sc p"
      using that by simp
    then show ?thesis by (rule has_sidecar_skip)
  qed
  have "process_files e (audio_files e) (new_parser s1) =
      process_files e (filter (\<lambda>q. \<not> has_sidecar s1 q) (audio_files e)) (new_parser s1)"
    by (rule process_files_filter) (simp add: has_sidecar_new_parser)
  then have second: "process_directory e (new_parser s1) =
      process_files e (filter (\<lambda>q. \<not> has_sidecar s1 q) (audio_files e)) (new_parser s1)"
    using assms(1) nonempty by (simp add: process_directory_def)
  have all_skip: "process_directory e (new_parser s1) = (Inr (), new_parser s1)
      \<and> found (new_parser s1) = 0 \<and> errors (new_parser s1) = 0"
    if "list_all (has_sidecar s1) (audio_files e)"
  proof -
    have "filter (\<lambda>q. \<not> has_sidecar s1 q) (audio_files e) = []"
      using that by (simp add: list_all_iff filter_empty_conv)
    then show ?thesis
      using second by (simp add: new_parser_def)
  qed
  show ?thesis
    using first saved skipped second all_skip by blast
qed

theorem second_run_skips_saved_files_witness:
  "found (snd (process_directory (scenario (lrclib_answers (PStr ''La la la'')) test_tags Written
      [[''song.flac'']]) state0)) = 1
   \<and> has_sidecar (snd (process_directory (scenario (lrclib_answers (PStr ''La la la'')) test_tags
        Written [[''song.flac'']]) state0)) [''song.flac'']
   \<and> process_directory (scenario (lrclib_answers (PStr ''La la la'')) test_tags Written
        [[''song.flac'']])
      (new_parser (snd (process_directory (scenario (lrclib_answers (PStr ''La la la'')) test_tags
        Written [[''song.flac'']]) state0)))
     = (Inr (), new_parser (snd (process_directory (scenario (lrclib_answers (PStr ''La la la''))
        test_tags Written [[''song.flac'']]) state0)))"
proof -
  let ?e = "scenario (lrclib_answers (PStr ''La la la'')) test_tags Written [[''song.flac'']]"
  let ?s1 = "snd (process_directory ?e state0)"
  have dir: "directory_exists ?e"
    by (simp add: scenario_def)
  have split: "audio_files ?e = [] @ [''song.flac''] # []"
    by (simp add: song_audio_files)
  have pre: "process_files ?e [] state0 = (Inr (), state0)"
    by simp
  have step: "process_audio_file ?e [''song.flac''] state0 = (Inr (), ?s1)"
    by (simp add: song_first_run song_saved)
  have counted: "found ?s1 = found state0 + 1"
    by (simp only: song_first_run snd_conv) (simp add: state0_def)
  have post: "process_files ?e [] ?s1 = (Inr (), ?s1)"
    by simp
  note both_runs = second_run_skips_saved_files [OF dir split pre step counted post]
  have saved: "has_sidecar ?s1 [''song.flac'']"
    using both_runs by blast
  then have "list_all (has_sidecar ?s1) (audio_files ?e)"
    by (simp add: song_audio_files)
  with both_runs have "process_directory ?e (new_parser ?s1) = (Inr (), new_parser ?s1)"
    by blast
  then show ?thesis
    using saved by (simp add: song_first_run)
qed

section \<open>The files the scan finds\<close>

text \<open>
  What the scan does find: the paths below the root whose name ends in one of the eight
  spellings of the patterns, each once, in ascending order.
\<close>

lemma fnmatch_literal:
  "CHR ''*'' \<notin> set pat \<Longrightarrow> fnmatch pat name = (name = pat)"
proof (induction pat arbitrary: name)
  case Nil
  show ?case by simp
next
  case (Cons c pat)
  then show ?case by (cases name) auto
qed

lemma fnmatch_star:
  "fnmatch (CHR ''*'' # pat) name = (\<exists>k\<le>length name. fnmatch pat (drop k name))"
  by (auto simp add: list_ex_iff less_Suc_eq_le simp del: upt_Suc)

lemma fnmatch_star_literal:
  assumes "CHR ''*'' \<notin> set lit"
  shows "fnmatch (CHR ''*'' # lit) name = suffix lit name"
proof
  assume "fnmatch (CHR ''*'' # lit) name"
  then obtain k where "fnmatch lit (drop k name)"
    unfolding fnmatch_star by blast
  then have "drop k name = lit"
    using assms by (simp add: fnmatch_literal)
  then have "name = take k name @ lit"
    by (metis append_take_drop_id)
  then show "suffix lit name"
    by (rule suffixI)
next
  assume "suffix lit name"
  then obtain zs where name: "name = zs @ lit"
    by (auto simp add: suffix_def)
  then have "length zs \<le> length name" and "fnmatch lit (drop (length zs) name)"
    using assms by (simp_all add: fnmatch_literal)
  then show "fnmatch (CHR ''*'' # lit) name"
    unfolding fnmatch_star by blast
qed

lemma rglob_star_literal:
  assumes "CHR ''*'' \<notin> set lit"
  shows "rglob e (CHR ''*'' # lit) = filter (\<lambda>p. suffix lit (path_name p)) (tree e)"
  unfolding rglob_def fnmatch_star_literal [OF assms] ..

lemma audio_files_set:
  "set (audio_files e) =
     {p \<in> set (tree e).
        suffix ''.flac'' (path_name p) \<or> suffix ''.FLAC'' (path_name p)
        \<or> suffix ''.mp3'' (path_name p) \<or> suffix ''.MP3'' (path_name p)
        \<or> suffix ''.m4a'' (path_name p) \<or> suffix ''.M4A'' (path_name p)
        \<or> suffix ''.mp4'' (path_name p) \<or> suffix ''.MP4'' (path_name p)}"
proof -
  have "set (audio_files e) = (\<Union>pat\<in>set patterns. set (rglob e pat))"
    by (simp add: audio_files_def)
  also have "\<dots> = {p \<in> set (tree e).
        suffix ''.flac'' (path_name p) \<or> suffix ''.FLAC'' (path_name p)
        \<or> suffix ''.mp3'' (path_name p) \<or> suffix ''.MP3'' (path_name p)
        \<or> suffix ''.m4a'' (path_name p) \<or> suffix ''.M4A'' (path_name p)
        \<or> suffix ''.mp4'' (path_name p) \<or> suffix ''.MP4'' (path_name p)}"
    unfolding patterns_def by (simp add: rglob_star_literal) blast
  finally show ?thesis .
qed

lemma audio_files_sorted:
  "sorted (audio_files e)" "distinct (audio_files e)"
  by (simp_all add: audio_files_def)


text \<open>
  Claim C8: the scan discovers exactly the files whose extension is a case variant of
  flac, mp3, m4a or mp4. The patterns spell each extension in lower case and in upper case
  only, so \<^verbatim>\<open>Song.Flac\<close> is not found and the run ends without processing it,
  although \<^verbatim>\<open>extract_metadata\<close>, which lowers the suffix, would read it as a FLAC
  file.
\<close>

theorem mixed_case_extension_missed:
  "audio_files (scenario (lrclib_answers (PStr ''La la la'')) test_tags Written [[''Song.Flac'']]) = []
   \<and> process_directory (scenario (lrclib_answers (PStr ''La la la'')) test_tags Written
        [[''Song.Flac'']]) state0 = (Inr (), state0)
   \<and> format_of (map py_lower (path_suffix [''Song.Flac''])) = Some FLAC"
proof -
  have none: "audio_files (scenario (lrclib_answers (PStr ''La la la'')) test_tags Written
      [[''Song.Flac'']]) = []"
    by (simp add: audio_files_def scenario_def rglob_def patterns_def path_name_def)
  have lower: "py_lower CHR ''F'' = CHR ''f''"
    by (simp add: py_lower_def char_of_eq_iff)
  have fmt: "format_of (map py_lower (path_suffix [''Song.Flac''])) = Some FLAC"
    by (simp add: path_suffix_def path_name_def rfind_dot_def lower format_of_def)
      (simp add: py_lower_def)
  show ?thesis
    by (simp add: none fmt process_directory_def)
qed

end
